theory Spec2Isabelle
  imports Main "HOL-Library.Multiset"
begin

section \<open>The content store of Inkwell Haven\<close>

text \<open>
  The store (class \<open>DatabaseStorage\<close>) issues SQL statements through the drizzle-orm
  query builder against the PostgreSQL tables declared in \<open>schema.ts\<close>. The embedding
  has three layers: the rows of the tables as records, the statements (select with
  where, left join, group by, order by and limit; insert, update, delete) as list
  functions, and the store's methods written over them, one definition per method,
  under the method's name.

  Every method takes the database state and returns its result with the new state.
  Two things the code reads from its environment are parameters of the model: the
  instant \<open>now\<close> at which a method runs (\<open>new Date()\<close> and the column default
  \<open>defaultNow()\<close>) and the identifiers that \<open>gen_random_uuid()\<close> hands out.
\<close>

subsection \<open>Values\<close>

type_synonym timestamp = int

text \<open>
  A property of a JavaScript object that may be left out: \<open>Undefined\<close> is the key
  absent (or \<open>undefined\<close>), \<open>Defined v\<close> the key present. A nullable column is an
  \<open>option\<close>, with \<open>None\<close> for SQL's NULL.
\<close>

datatype 'a optional = Undefined | Defined 'a

text \<open>A \<open>string\<close> stands for a text value as PostgreSQL stores it. A JavaScript string
  holding the NUL character, which PostgreSQL refuses in every statement, is outside
  the model.\<close>

text \<open>What an omitted or null value of an insert becomes in a nullable column with a
  default: the default when the key is omitted, the given value (NULL too) otherwise.\<close>

fun orDefault :: "'a option optional \<Rightarrow> 'a \<Rightarrow> 'a option" where
  "orDefault Undefined d = Some d"
| "orDefault (Defined v) d = v"

text \<open>A nullable column without default: omitted and null both store NULL.\<close>

fun orNull :: "'a option optional \<Rightarrow> 'a option" where
  "orNull Undefined = None"
| "orNull (Defined v) = v"

text \<open>One key of the object given to \<open>.set(...)\<close> of an update: drizzle leaves out
  the keys whose value is \<open>undefined\<close>, so the column keeps its old value.\<close>

fun setField :: "'a optional \<Rightarrow> 'a \<Rightarrow> 'a" where
  "setField Undefined old = old"
| "setField (Defined v) old = v"

subsection \<open>Rows (schema.ts)\<close>

record User =
  u_id :: string
  u_email :: "string option"
  u_firstName :: "string option"
  u_lastName :: "string option"
  u_profileImageUrl :: "string option"
  u_bio :: "string option"
  u_username :: "string option"
  u_createdAt :: "timestamp option"
  u_updatedAt :: "timestamp option"

record Story =
  s_id :: string
  s_title :: string
  s_content :: string
  s_excerpt :: "string option"
  s_category :: string
  s_coverImageUrl :: "string option"
  s_authorId :: string
  s_published :: "bool option"
  s_publishedAt :: "timestamp option"
  s_wordCount :: "int option"
  s_hasChapters :: "bool option"
  s_createdAt :: "timestamp option"
  s_updatedAt :: "timestamp option"

record Chapter =
  c_id :: string
  c_storyId :: string
  c_title :: string
  c_content :: string
  c_chapterNumber :: int
  c_published :: "bool option"
  c_publishedAt :: "timestamp option"
  c_wordCount :: "int option"
  c_createdAt :: "timestamp option"
  c_updatedAt :: "timestamp option"

record Like =
  l_id :: string
  l_userId :: string
  l_storyId :: string
  l_createdAt :: "timestamp option"

record Notification =
  n_id :: string
  n_userId :: string
  n_type :: string
  n_storyId :: "string option"
  n_read :: "bool option"
  n_createdAt :: "timestamp option"

record Bookmark =
  b_id :: string
  b_userId :: string
  b_storyId :: string
  b_chapterId :: "string option"
  b_position :: int
  b_note :: "string option"
  b_createdAt :: "timestamp option"

text \<open>The database: one list of rows per table, in storage order (an insert appends,
  an update rewrites the row in place, a delete removes it).\<close>

record db =
  users :: "User list"
  stories :: "Story list"
  chapters :: "Chapter list"
  likes :: "Like list"
  notifications :: "Notification list"
  bookmarks :: "Bookmark list"

text \<open>The faults the database raises on a write: a number that does not fit its
  \<open>integer\<close> column (raised when the statement's values are read, ahead of any row), a
  primary key that is already there, a reference to a row that is not.\<close>

datatype db_error = NumericValueOutOfRange | UniqueViolation | ForeignKeyViolation

text \<open>The values of a PostgreSQL \<open>integer\<close> column: 32 bits, signed.\<close>

definition fitsInteger :: "int \<Rightarrow> bool" where
  "fitsInteger n = (- 2147483648 \<le> n \<and> n \<le> 2147483647)"

text \<open>An optional, nullable number among the values of a statement.\<close>

fun integerGiven :: "int option optional \<Rightarrow> bool" where
  "integerGiven (Defined (Some n)) = fitsInteger n"
| "integerGiven _ = True"

subsection \<open>ORDER BY\<close>

text \<open>
  \<open>sortRows precedes rows\<close> sorts by insertion, \<open>precedes a b\<close> saying that \<open>a\<close> may stand
  in front of \<open>b\<close>. SQL leaves the order of rows with equal keys open; the model keeps
  them in storage order, and no theorem below depends on that choice.
\<close>

fun place :: "('a \<Rightarrow> 'a \<Rightarrow> bool) \<Rightarrow> 'a \<Rightarrow> 'a list \<Rightarrow> 'a list" where
  "place precedes r [] = [r]"
| "place precedes r (x # xs) = (if precedes r x then r # x # xs else x # place precedes r xs)"

definition sortRows :: "('a \<Rightarrow> 'a \<Rightarrow> bool) \<Rightarrow> 'a list \<Rightarrow> 'a list" where
  "sortRows precedes rows = foldr (place precedes) rows []"

text \<open>PostgreSQL sorts NULL as larger than every value: last in ascending order,
  first in descending order.\<close>

fun nullsLargest_le :: "'a::linorder option \<Rightarrow> 'a option \<Rightarrow> bool" where
  "nullsLargest_le _ None = True"
| "nullsLargest_le None (Some _) = False"
| "nullsLargest_le (Some a) (Some b) = (a \<le> b)"

definition asc :: "('r \<Rightarrow> 'k::linorder) \<Rightarrow> 'r \<Rightarrow> 'r \<Rightarrow> bool" where
  "asc col a b = (col a \<le> col b)"

definition desc :: "('r \<Rightarrow> 'k::linorder option) \<Rightarrow> 'r \<Rightarrow> 'r \<Rightarrow> bool" where
  "desc col a b = nullsLargest_le (col b) (col a)"

text \<open>\<open>orderBy(k1, k2)\<close>: the second key decides between rows that the first key
  does not tell apart.\<close>

definition thenBy :: "('r \<Rightarrow> 'r \<Rightarrow> bool) \<Rightarrow> ('r \<Rightarrow> 'r \<Rightarrow> bool) \<Rightarrow> 'r \<Rightarrow> 'r \<Rightarrow> bool" where
  "thenBy k1 k2 a b = (if k1 a b \<and> k1 b a then k2 a b else k1 a b)"

subsection \<open>LEFT JOIN and GROUP BY\<close>

text \<open>Every left row with each right row that matches it, or once with NULLs when
  none does.\<close>

definition leftJoin :: "'a list \<Rightarrow> 'b list \<Rightarrow> ('a \<Rightarrow> 'b \<Rightarrow> bool) \<Rightarrow> ('a \<times> 'b option) list" where
  "leftJoin ls rs on =
     concat (map (\<lambda>x. case filter (on x) rs of
                          [] \<Rightarrow> [(x, None)]
                        | ms \<Rightarrow> map (\<lambda>y. (x, Some y)) ms) ls)"

text \<open>The groups of rows with equal key, each as its first row and the rest, in the
  order in which the keys first occur.\<close>

fun groupBy :: "('r \<Rightarrow> 'k) \<Rightarrow> 'r list \<Rightarrow> ('r \<times> 'r list) list" where
  "groupBy key [] = []"
| "groupBy key (r # rs) =
     (r, filter (\<lambda>x. key x = key r) rs) # groupBy key (filter (\<lambda>x. key x \<noteq> key r) rs)"

subsection \<open>The select builder of getPublishedStories\<close>

text \<open>
  The row of \<open>stories LEFT JOIN users LEFT JOIN likes\<close>, and the row that the select's
  field list makes of a group: the story's columns (all but \<open>hasChapters\<close>, which the
  list leaves out), the author and \<open>count(likes.id)\<close>.
\<close>

type_synonym joined = "(Story \<times> User option) \<times> Like option"

definition storyOf :: "joined \<Rightarrow> Story" where
  "storyOf j = fst (fst j)"

definition authorOf :: "joined \<Rightarrow> User option" where
  "authorOf j = snd (fst j)"

definition likeOf :: "joined \<Rightarrow> Like option" where
  "likeOf j = snd j"

record StoryWithAuthor =
  r_id :: string
  r_title :: string
  r_content :: string
  r_excerpt :: "string option"
  r_category :: string
  r_coverImageUrl :: "string option"
  r_authorId :: string
  r_published :: "bool option"
  r_publishedAt :: "timestamp option"
  r_wordCount :: "int option"
  r_createdAt :: "timestamp option"
  r_updatedAt :: "timestamp option"
  r_author :: "User option"
  r_likeCount :: nat

text \<open>
  A drizzle select builder keeps one condition, one ordering and one limit in its
  configuration, and each of \<open>.where(c)\<close>, \<open>.orderBy(...)\<close>, \<open>.limit(n)\<close> assigns its
  slot (\<open>this.config.where = c\<close>) and returns the builder. A second \<open>.where\<close>
  therefore replaces the condition of the first; conditions are combined only by
  \<open>and(...)\<close> inside one call. The statement is put together from the configuration
  when the query is awaited.
\<close>

record select_config =
  cfg_where :: "(joined \<Rightarrow> bool) option"
  cfg_orderBy :: "(StoryWithAuthor \<Rightarrow> StoryWithAuthor \<Rightarrow> bool) option"
  cfg_limit :: "nat option"

definition selWhere :: "select_config \<Rightarrow> (joined \<Rightarrow> bool) \<Rightarrow> select_config" where
  "selWhere q c = q\<lparr>cfg_where := Some c\<rparr>"

definition selOrderBy ::
  "select_config \<Rightarrow> (StoryWithAuthor \<Rightarrow> StoryWithAuthor \<Rightarrow> bool) \<Rightarrow> select_config" where
  "selOrderBy q b = q\<lparr>cfg_orderBy := Some b\<rparr>"

definition selLimit :: "select_config \<Rightarrow> nat \<Rightarrow> select_config" where
  "selLimit q n = q\<lparr>cfg_limit := Some n\<rparr>"

text \<open>\<open>from(stories).leftJoin(users, eq(stories.authorId, users.id))
  .leftJoin(likes, eq(stories.id, likes.storyId))\<close>\<close>

definition joinedRows :: "db \<Rightarrow> joined list" where
  "joinedRows d =
     leftJoin (leftJoin (stories d) (users d) (\<lambda>s u. s_authorId s = u_id u))
              (likes d) (\<lambda>su l. s_id (fst su) = l_storyId l)"

text \<open>\<open>groupBy(stories.id, users.id)\<close>; NULL keys fall into one group.\<close>

definition groupKey :: "joined \<Rightarrow> string \<times> string option" where
  "groupKey j = (s_id (storyOf j), map_option u_id (authorOf j))"

text \<open>The field list on one group. The story's and the author's columns are those
  of the group's rows (the group's first row gives them); \<open>count(likes.id)\<close> counts
  the rows of the group whose \<open>likes.id\<close> is not NULL.\<close>

fun selectFields :: "joined \<times> joined list \<Rightarrow> StoryWithAuthor" where
  "selectFields (j, js) =
     \<lparr>r_id = s_id (storyOf j), r_title = s_title (storyOf j), r_content = s_content (storyOf j),
      r_excerpt = s_excerpt (storyOf j), r_category = s_category (storyOf j),
      r_coverImageUrl = s_coverImageUrl (storyOf j), r_authorId = s_authorId (storyOf j),
      r_published = s_published (storyOf j), r_publishedAt = s_publishedAt (storyOf j),
      r_wordCount = s_wordCount (storyOf j), r_createdAt = s_createdAt (storyOf j),
      r_updatedAt = s_updatedAt (storyOf j), r_author = authorOf j,
      r_likeCount = length (filter (\<lambda>x. likeOf x \<noteq> None) (j # js))\<rparr>"

text \<open>The rows of the statement, ahead of ORDER BY and LIMIT.\<close>

definition groupedRows :: "db \<Rightarrow> select_config \<Rightarrow> StoryWithAuthor list" where
  "groupedRows d q =
     map selectFields
       (groupBy groupKey
          (case cfg_where q of None \<Rightarrow> joinedRows d | Some c \<Rightarrow> filter c (joinedRows d)))"

definition runSelect :: "db \<Rightarrow> select_config \<Rightarrow> StoryWithAuthor list" where
  "runSelect d q =
     (let rows = groupedRows d q;
          ordered = (case cfg_orderBy q of None \<Rightarrow> rows | Some b \<Rightarrow> sortRows b rows)
      in case cfg_limit q of None \<Rightarrow> ordered | Some n \<Rightarrow> take n ordered)"

definition baseQuery :: select_config where
  "baseQuery = \<lparr>cfg_where = None, cfg_orderBy = None, cfg_limit = None\<rparr>"

text \<open>JavaScript's \<open>category && category !== 'all'\<close>: an absent and an empty string
  are both falsy.\<close>

fun categoryGiven :: "string optional \<Rightarrow> bool" where
  "categoryGiven Undefined = False"
| "categoryGiven (Defined c) = (c \<noteq> [] \<and> c \<noteq> ''all'')"

fun categoryOf :: "string optional \<Rightarrow> string" where
  "categoryOf Undefined = []"
| "categoryOf (Defined c) = c"

text \<open>The configuration that \<open>getPublishedStories\<close> builds, statement by statement.\<close>

definition publishedStoriesQuery :: "string optional \<Rightarrow> string optional \<Rightarrow> select_config" where
  "publishedStoriesQuery category sortBy =
     (let query = selWhere baseQuery (\<lambda>j. s_published (storyOf j) = Some True);
          query = (if categoryGiven category
                   then selWhere query (\<lambda>j. s_category (storyOf j) = categoryOf category)
                   else query);
          query = (if sortBy = Defined ''recent''
                   then selOrderBy query (desc r_publishedAt)
                   else if sortBy = Defined ''trending''
                   then selOrderBy query (thenBy (desc (Some \<circ> r_likeCount)) (desc r_publishedAt))
                   else selOrderBy query (thenBy (desc (Some \<circ> r_likeCount)) (desc r_publishedAt)))
      in selLimit query 50)"

definition getPublishedStories ::
  "db \<Rightarrow> string optional \<Rightarrow> string optional \<Rightarrow> StoryWithAuthor list" where
  "getPublishedStories d category sortBy = runSelect d (publishedStoriesQuery category sortBy)"

subsection \<open>Stories\<close>

text \<open>\<open>InsertStory\<close>: the table's columns without \<open>id\<close>, \<open>createdAt\<close>, \<open>updatedAt\<close>
  and \<open>publishedAt\<close>; \<open>published\<close> is among them.\<close>

record InsertStory =
  is_title :: string
  is_content :: string
  is_excerpt :: "string option optional"
  is_category :: string
  is_coverImageUrl :: "string option optional"
  is_authorId :: string
  is_published :: "bool option optional"
  is_wordCount :: "int option optional"
  is_hasChapters :: "bool option optional"

text \<open>\<open>Partial<InsertStory>\<close>: every key may be left out.\<close>

record PartialInsertStory =
  ps_title :: "string optional"
  ps_content :: "string optional"
  ps_excerpt :: "string option optional"
  ps_category :: "string optional"
  ps_coverImageUrl :: "string option optional"
  ps_authorId :: "string optional"
  ps_published :: "bool option optional"
  ps_wordCount :: "int option optional"
  ps_hasChapters :: "bool option optional"

definition userExists :: "db \<Rightarrow> string \<Rightarrow> bool" where
  "userExists d uid = (uid \<in> set (map u_id (users d)))"

definition storyExists :: "db \<Rightarrow> string \<Rightarrow> bool" where
  "storyExists d sid = (sid \<in> set (map s_id (stories d)))"

definition chapterExists :: "db \<Rightarrow> string \<Rightarrow> bool" where
  "chapterExists d cid = (cid \<in> set (map c_id (chapters d)))"

text \<open>The first row of a result, as the destructuring \<open>const [row] = ...\<close> takes it;
  \<open>None\<close> is JavaScript's \<open>undefined\<close> for an empty result.\<close>

fun firstRow :: "'a list \<Rightarrow> 'a option" where
  "firstRow [] = None"
| "firstRow (x # _) = Some x"

text \<open>\<open>insert(stories).values(story).returning()\<close>; \<open>newId\<close> is the identifier the
  column default generates.\<close>

definition createStory :: "db \<Rightarrow> string \<Rightarrow> timestamp \<Rightarrow> InsertStory \<Rightarrow> (db_error + Story) \<times> db" where
  "createStory d newId now story =
     (if \<not> integerGiven (is_wordCount story) then (Inl NumericValueOutOfRange, d)
      else if storyExists d newId then (Inl UniqueViolation, d)
      else if \<not> userExists d (is_authorId story) then (Inl ForeignKeyViolation, d)
      else
        let newStory =
          \<lparr>s_id = newId, s_title = is_title story, s_content = is_content story,
           s_excerpt = orNull (is_excerpt story), s_category = is_category story,
           s_coverImageUrl = orNull (is_coverImageUrl story), s_authorId = is_authorId story,
           s_published = orDefault (is_published story) False, s_publishedAt = None,
           s_wordCount = orDefault (is_wordCount story) 0,
           s_hasChapters = orDefault (is_hasChapters story) False,
           s_createdAt = Some now, s_updatedAt = Some now\<rparr>
        in (Inr newStory, d\<lparr>stories := stories d @ [newStory]\<rparr>))"

definition getStory :: "db \<Rightarrow> string \<Rightarrow> Story option" where
  "getStory d sid = firstRow (filter (\<lambda>s. s_id s = sid) (stories d))"

definition getStoriesByAuthor :: "db \<Rightarrow> string \<Rightarrow> Story list" where
  "getStoriesByAuthor d authorId =
     sortRows (desc s_publishedAt)
       (filter (\<lambda>s. s_authorId s = authorId \<and> s_published s = Some True) (stories d))"

text \<open>\<open>update(stories).set({...updates, updatedAt: new Date()}).where(eq(stories.id, id))
  .returning()\<close>. A new \<open>authorId\<close> is checked against \<open>users\<close> for each row the
  update touches.\<close>

definition applyUpdates :: "PartialInsertStory \<Rightarrow> timestamp \<Rightarrow> Story \<Rightarrow> Story" where
  "applyUpdates updates now s =
     s\<lparr>s_title := setField (ps_title updates) (s_title s),
       s_content := setField (ps_content updates) (s_content s),
       s_excerpt := setField (ps_excerpt updates) (s_excerpt s),
       s_category := setField (ps_category updates) (s_category s),
       s_coverImageUrl := setField (ps_coverImageUrl updates) (s_coverImageUrl s),
       s_authorId := setField (ps_authorId updates) (s_authorId s),
       s_published := setField (ps_published updates) (s_published s),
       s_wordCount := setField (ps_wordCount updates) (s_wordCount s),
       s_hasChapters := setField (ps_hasChapters updates) (s_hasChapters s),
       s_updatedAt := Some now\<rparr>"

definition updateWhere :: "('a \<Rightarrow> bool) \<Rightarrow> ('a \<Rightarrow> 'a) \<Rightarrow> 'a list \<Rightarrow> 'a list" where
  "updateWhere c f rows = map (\<lambda>r. if c r then f r else r) rows"

definition updateStory ::
  "db \<Rightarrow> timestamp \<Rightarrow> string \<Rightarrow> PartialInsertStory \<Rightarrow> (db_error + Story option) \<times> db" where
  "updateStory d now sid updates =
     (if \<not> integerGiven (ps_wordCount updates) then (Inl NumericValueOutOfRange, d)
      else if storyExists d sid \<and> (case ps_authorId updates of
                                      Undefined \<Rightarrow> False | Defined a \<Rightarrow> \<not> userExists d a)
      then (Inl ForeignKeyViolation, d)
      else
        let d' = d\<lparr>stories := updateWhere (\<lambda>s. s_id s = sid) (applyUpdates updates now) (stories d)\<rparr>
        in (Inr (firstRow (filter (\<lambda>s. s_id s = sid) (stories d'))), d'))"

definition publishStory :: "db \<Rightarrow> timestamp \<Rightarrow> string \<Rightarrow> Story option \<times> db" where
  "publishStory d now sid =
     (let d' = d\<lparr>stories :=
                  updateWhere (\<lambda>s. s_id s = sid)
                    (\<lambda>s. s\<lparr>s_published := Some True, s_publishedAt := Some now,
                           s_updatedAt := Some now\<rparr>) (stories d)\<rparr>
      in (firstRow (filter (\<lambda>s. s_id s = sid) (stories d')), d'))"

definition enableChaptersOnStory :: "db \<Rightarrow> timestamp \<Rightarrow> string \<Rightarrow> Story option \<times> db" where
  "enableChaptersOnStory d now sid =
     (let d' = d\<lparr>stories :=
                  updateWhere (\<lambda>s. s_id s = sid)
                    (\<lambda>s. s\<lparr>s_hasChapters := Some True, s_updatedAt := Some now\<rparr>) (stories d)\<rparr>
      in (firstRow (filter (\<lambda>s. s_id s = sid) (stories d')), d'))"

subsection \<open>Chapters\<close>

text \<open>\<open>select().from(chapters).where(eq(chapters.storyId, storyId))
  .orderBy(chapters.chapterNumber)\<close>\<close>

definition getStoryChapters :: "db \<Rightarrow> string \<Rightarrow> Chapter list" where
  "getStoryChapters d storyId =
     sortRows (asc c_chapterNumber) (filter (\<lambda>c. c_storyId c = storyId) (chapters d))"

subsection \<open>Likes and notifications\<close>

definition getLikeCount :: "db \<Rightarrow> string \<Rightarrow> nat" where
  "getLikeCount d storyId = length (filter (\<lambda>l. l_storyId l = storyId) (likes d))"

text \<open>\<open>insert(notifications).values({ userId, type, storyId }).returning()\<close>\<close>

definition createNotification ::
  "db \<Rightarrow> string \<Rightarrow> timestamp \<Rightarrow> string \<Rightarrow> string \<Rightarrow> string optional
     \<Rightarrow> (db_error + Notification) \<times> db" where
  "createNotification d newId now userId type storyId =
     (if newId \<in> set (map n_id (notifications d)) then (Inl UniqueViolation, d)
      else if \<not> userExists d userId
              \<or> (case storyId of Undefined \<Rightarrow> False | Defined s \<Rightarrow> \<not> storyExists d s)
      then (Inl ForeignKeyViolation, d)
      else
        let notification =
          \<lparr>n_id = newId, n_userId = userId, n_type = type,
           n_storyId = (case storyId of Undefined \<Rightarrow> None | Defined s \<Rightarrow> Some s),
           n_read = Some False, n_createdAt = Some now\<rparr>
        in (Inr notification, d\<lparr>notifications := notifications d @ [notification]\<rparr>))"

text \<open>\<open>insert(likes).values({ userId, storyId })\<close>\<close>

definition insertLike :: "db \<Rightarrow> string \<Rightarrow> timestamp \<Rightarrow> string \<Rightarrow> string \<Rightarrow> (db_error + Like) \<times> db" where
  "insertLike d newId now userId storyId =
     (if newId \<in> set (map l_id (likes d)) then (Inl UniqueViolation, d)
      else if \<not> userExists d userId \<or> \<not> storyExists d storyId then (Inl ForeignKeyViolation, d)
      else
        let newLike = \<lparr>l_id = newId, l_userId = userId, l_storyId = storyId, l_createdAt = Some now\<rparr>
        in (Inr newLike, d\<lparr>likes := likes d @ [newLike]\<rparr>))"

text \<open>The result \<open>{ liked, count }\<close> of \<open>toggleLike\<close>.\<close>

record LikeResult =
  liked :: bool
  count' :: nat

text \<open>
  \<open>toggleLike\<close>. The statements are not in a transaction: when the notification's
  insert fails, the like stays inserted and the fault is what the method gives.
  \<open>likeId\<close> and \<open>notificationId\<close> are the identifiers generated for the two inserts.
\<close>

definition toggleLike ::
  "db \<Rightarrow> string \<Rightarrow> string \<Rightarrow> timestamp \<Rightarrow> string \<Rightarrow> string \<Rightarrow> (db_error + LikeResult) \<times> db" where
  "toggleLike d likeId notificationId now userId storyId =
     (let existingLike = take 1 (filter (\<lambda>l. l_userId l = userId \<and> l_storyId l = storyId) (likes d))
      in if length existingLike > 0 then
           let d1 = d\<lparr>likes := filter (\<lambda>l. \<not> (l_userId l = userId \<and> l_storyId l = storyId)) (likes d)\<rparr>
           in (Inr \<lparr>liked = False, count' = getLikeCount d1 storyId\<rparr>, d1)
         else
           case insertLike d likeId now userId storyId of
             (Inl e, d1) \<Rightarrow> (Inl e, d1)
           | (Inr _, d1) \<Rightarrow>
               (case (case getStory d1 storyId of
                        None \<Rightarrow> (Inr None, d1)
                      | Some story \<Rightarrow>
                          if s_authorId story \<noteq> userId
                          then (case createNotification d1 notificationId now (s_authorId story)
                                       ''like'' (Defined storyId) of
                                  (Inl e, d2) \<Rightarrow> (Inl e, d2)
                                | (Inr n, d2) \<Rightarrow> (Inr (Some n), d2))
                          else (Inr None, d1)) of
                  (Inl e, d2) \<Rightarrow> (Inl e, d2)
                | (Inr _, d2) \<Rightarrow> (Inr \<lparr>liked = True, count' = getLikeCount d2 storyId\<rparr>, d2)))"

subsection \<open>Bookmarks\<close>

record InsertBookmark =
  ib_userId :: string
  ib_storyId :: string
  ib_chapterId :: "string option optional"
  ib_position :: int
  ib_note :: "string option optional"

text \<open>
  \<open>createBookmark\<close>: the row found by (userId, storyId) is updated by its id with
  \<open>set({ note: bookmark.note, createdAt: new Date() })\<close>; without such a row the
  bookmark is inserted. The lookup and the update carry no number; the insert carries
  \<open>position\<close>.
\<close>

definition createBookmark ::
  "db \<Rightarrow> string \<Rightarrow> timestamp \<Rightarrow> InsertBookmark \<Rightarrow> (db_error + Bookmark option) \<times> db" where
  "createBookmark d newId now bookmark =
     (case take 1 (filter (\<lambda>b. b_userId b = ib_userId bookmark \<and> b_storyId b = ib_storyId bookmark)
                     (bookmarks d)) of
        existing # _ \<Rightarrow>
          let d' = d\<lparr>bookmarks :=
                       updateWhere (\<lambda>b. b_id b = b_id existing)
                         (\<lambda>b. b\<lparr>b_note := setField (ib_note bookmark) (b_note b),
                                b_createdAt := Some now\<rparr>) (bookmarks d)\<rparr>
          in (Inr (firstRow (filter (\<lambda>b. b_id b = b_id existing) (bookmarks d'))), d')
      | [] \<Rightarrow>
          if \<not> fitsInteger (ib_position bookmark) then (Inl NumericValueOutOfRange, d)
          else if newId \<in> set (map b_id (bookmarks d)) then (Inl UniqueViolation, d)
          else if \<not> userExists d (ib_userId bookmark) \<or> \<not> storyExists d (ib_storyId bookmark)
                  \<or> (case orNull (ib_chapterId bookmark) of
                        None \<Rightarrow> False | Some c \<Rightarrow> \<not> chapterExists d c)
          then (Inl ForeignKeyViolation, d)
          else
            let newBookmark =
              \<lparr>b_id = newId, b_userId = ib_userId bookmark, b_storyId = ib_storyId bookmark,
               b_chapterId = orNull (ib_chapterId bookmark), b_position = ib_position bookmark,
               b_note = orNull (ib_note bookmark), b_createdAt = Some now\<rparr>
            in (Inr (Some newBookmark), d\<lparr>bookmarks := bookmarks d @ [newBookmark]\<rparr>))"

subsection \<open>What the feed query computes\<close>

text \<open>
  Terms in which the properties of \<open>getPublishedStories\<close> are stated and proved.
  \<open>storyRow d s\<close> is the result row of story \<open>s\<close>: its columns, the user its
  \<open>authorId\<close> names, and the number of rows of \<open>likes\<close> with its id.
  \<open>primaryKeys\<close> says that the primary keys of \<open>stories\<close> and \<open>users\<close> are unique,
  as the database keeps them.
\<close>

definition authorRow :: "db \<Rightarrow> Story \<Rightarrow> User option" where
  "authorRow d s = firstRow (filter (\<lambda>u. s_authorId s = u_id u) (users d))"

definition storyRow :: "db \<Rightarrow> Story \<Rightarrow> StoryWithAuthor" where
  "storyRow d s =
     \<lparr>r_id = s_id s, r_title = s_title s, r_content = s_content s, r_excerpt = s_excerpt s,
      r_category = s_category s, r_coverImageUrl = s_coverImageUrl s, r_authorId = s_authorId s,
      r_published = s_published s, r_publishedAt = s_publishedAt s, r_wordCount = s_wordCount s,
      r_createdAt = s_createdAt s, r_updatedAt = s_updatedAt s, r_author = authorRow d s,
      r_likeCount = getLikeCount d (s_id s)\<rparr>"

definition primaryKeys :: "db \<Rightarrow> bool" where
  "primaryKeys d = (distinct (map s_id (stories d)) \<and> distinct (map u_id (users d)))"

text \<open>The rows that the two joins make of one story.\<close>

definition storyBlock :: "db \<Rightarrow> Story \<Rightarrow> joined list" where
  "storyBlock d s =
     (case filter (\<lambda>l. s_id s = l_storyId l) (likes d) of
        [] \<Rightarrow> [((s, authorRow d s), None)]
      | ms \<Rightarrow> map (\<lambda>l. ((s, authorRow d s), Some l)) ms)"

text \<open>The condition that the configuration built by \<open>getPublishedStories\<close> ends up
  with: the condition of the last \<open>.where\<close> call.\<close>

definition effectiveFilter :: "string optional \<Rightarrow> Story \<Rightarrow> bool" where
  "effectiveFilter category s =
     (if categoryGiven category then s_category s = categoryOf category
      else s_published s = Some True)"

definition trending :: "StoryWithAuthor \<Rightarrow> StoryWithAuthor \<Rightarrow> bool" where
  "trending a b =
     (r_likeCount b < r_likeCount a
      \<or> (r_likeCount a = r_likeCount b \<and> nullsLargest_le (r_publishedAt b) (r_publishedAt a)))"

definition recent :: "StoryWithAuthor \<Rightarrow> StoryWithAuthor \<Rightarrow> bool" where
  "recent a b = nullsLargest_le (r_publishedAt b) (r_publishedAt a)"


subsection \<open>Likes and bookmarks of a pair\<close>

text \<open>
  Terms in which the properties of \<open>toggleLike\<close> and \<open>createBookmark\<close> are stated.
  \<open>pairLikes\<close> counts the rows of \<open>likes\<close> of a (user, story) pair. \<open>likeAccepted\<close>
  says that the database accepts what \<open>toggleLike\<close> inserts for a new like: the
  like's generated id is new, the user and the story exist and, when the story is
  another user's, the notification's generated id is new and its author exists.
  \<open>likeNotification\<close> and \<open>newLikeRow\<close> are the rows inserted.
\<close>

definition pairLikes :: "db \<Rightarrow> string \<Rightarrow> string \<Rightarrow> nat" where
  "pairLikes d userId storyId =
     length (filter (\<lambda>l. l_userId l = userId \<and> l_storyId l = storyId) (likes d))"

definition likeAccepted :: "db \<Rightarrow> string \<Rightarrow> string \<Rightarrow> string \<Rightarrow> string \<Rightarrow> bool" where
  "likeAccepted d likeId notificationId userId storyId =
     (likeId \<notin> set (map l_id (likes d)) \<and> userExists d userId
      \<and> (case getStory d storyId of
            None \<Rightarrow> False
          | Some story \<Rightarrow>
              s_authorId story = userId
              \<or> (notificationId \<notin> set (map n_id (notifications d))
                 \<and> userExists d (s_authorId story))))"

definition likeNotification :: "string \<Rightarrow> timestamp \<Rightarrow> string \<Rightarrow> string \<Rightarrow> Notification" where
  "likeNotification notificationId now author storyId =
     \<lparr>n_id = notificationId, n_userId = author, n_type = ''like'', n_storyId = Some storyId,
      n_read = Some False, n_createdAt = Some now\<rparr>"

definition newLikeRow :: "string \<Rightarrow> timestamp \<Rightarrow> string \<Rightarrow> string \<Rightarrow> Like" where
  "newLikeRow likeId now userId storyId =
     \<lparr>l_id = likeId, l_userId = userId, l_storyId = storyId, l_createdAt = Some now\<rparr>"

text \<open>
  \<open>pairBookmarks\<close> are the rows of \<open>bookmarks\<close> of a pair; \<open>bookmarkAccepted\<close> says that
  the database accepts the insert of a bookmark; \<open>onePerPair\<close> that no two rows of
  \<open>bookmarks\<close> have the same (user, story) pair; \<open>touched\<close> is a row after the update of
  \<open>createBookmark\<close>, \<open>newBookmarkRow\<close> the row it inserts.
\<close>

definition pairBookmarks :: "db \<Rightarrow> string \<Rightarrow> string \<Rightarrow> Bookmark list" where
  "pairBookmarks d userId storyId =
     filter (\<lambda>b. b_userId b = userId \<and> b_storyId b = storyId) (bookmarks d)"

definition bookmarkAccepted :: "db \<Rightarrow> string \<Rightarrow> InsertBookmark \<Rightarrow> bool" where
  "bookmarkAccepted d newId bookmark =
     (fitsInteger (ib_position bookmark) \<and> newId \<notin> set (map b_id (bookmarks d))
      \<and> userExists d (ib_userId bookmark) \<and> storyExists d (ib_storyId bookmark)
      \<and> (case orNull (ib_chapterId bookmark) of None \<Rightarrow> True | Some c \<Rightarrow> chapterExists d c))"

definition onePerPair :: "db \<Rightarrow> bool" where
  "onePerPair d = distinct (map (\<lambda>b. (b_userId b, b_storyId b)) (bookmarks d))"

definition touched :: "InsertBookmark \<Rightarrow> timestamp \<Rightarrow> Bookmark \<Rightarrow> Bookmark" where
  "touched bookmark now b =
     b\<lparr>b_note := setField (ib_note bookmark) (b_note b), b_createdAt := Some now\<rparr>"

definition newBookmarkRow :: "string \<Rightarrow> timestamp \<Rightarrow> InsertBookmark \<Rightarrow> Bookmark" where
  "newBookmarkRow newId now bookmark =
     \<lparr>b_id = newId, b_userId = ib_userId bookmark, b_storyId = ib_storyId bookmark,
      b_chapterId = orNull (ib_chapterId bookmark), b_position = ib_position bookmark,
      b_note = orNull (ib_note bookmark), b_createdAt = Some now\<rparr>"

subsection \<open>The publish invariant of a story row\<close>

text \<open>\<open>publishedAt\<close> is set exactly when \<open>published\<close> is true, and then it is not
  earlier than \<open>createdAt\<close>.\<close>

fun notLater :: "timestamp option \<Rightarrow> timestamp option \<Rightarrow> bool" where
  "notLater (Some c) (Some t) = (c \<le> t)"
| "notLater _ _ = True"

definition publishInvariant :: "Story \<Rightarrow> bool" where
  "publishInvariant s =
     (((s_publishedAt s \<noteq> None) = (s_published s = Some True))
      \<and> notLater (s_createdAt s) (s_publishedAt s))"

definition storiesInvariant :: "db \<Rightarrow> bool" where
  "storiesInvariant d = list_all publishInvariant (stories d)"

text \<open>The row was created at or before the instant \<open>now\<close>.\<close>

definition createdNotAfter :: "timestamp \<Rightarrow> Story \<Rightarrow> bool" where
  "createdNotAfter now s = notLater (s_createdAt s) (Some now)"

subsection \<open>Sample states\<close>

text \<open>Small concrete states, on which the theorems below are instantiated.\<close>

definition emptyDb :: db where
  "emptyDb = \<lparr>users = [], stories = [], chapters = [], likes = [], notifications = [],
              bookmarks = []\<rparr>"

definition sampleChapter :: "string \<Rightarrow> string \<Rightarrow> int \<Rightarrow> bool \<Rightarrow> Chapter" where
  "sampleChapter cid sid n pub =
     \<lparr>c_id = cid, c_storyId = sid, c_title = ''Chapter'', c_content = ''Text'',
      c_chapterNumber = n, c_published = Some pub,
      c_publishedAt = (if pub then Some 20 else None), c_wordCount = Some 1,
      c_createdAt = Some 10, c_updatedAt = Some 10\<rparr>"

definition chaptersDb :: db where
  "chaptersDb = emptyDb\<lparr>chapters :=
     [sampleChapter ''c3'' ''s1'' 3 False, sampleChapter ''x1'' ''s2'' 1 True,
      sampleChapter ''c1'' ''s1'' 1 True, sampleChapter ''c2'' ''s1'' 2 False]\<rparr>"

definition sampleUser :: "string \<Rightarrow> User" where
  "sampleUser uid =
     \<lparr>u_id = uid, u_email = None, u_firstName = Some uid, u_lastName = None,
      u_profileImageUrl = None, u_bio = None, u_username = Some uid,
      u_createdAt = Some 1, u_updatedAt = Some 1\<rparr>"

definition sampleStory :: "string \<Rightarrow> string \<Rightarrow> string \<Rightarrow> timestamp option \<Rightarrow> Story" where
  "sampleStory sid author category publishedAt =
     \<lparr>s_id = sid, s_title = ''Title'', s_content = ''Text'', s_excerpt = None,
      s_category = category, s_coverImageUrl = None, s_authorId = author,
      s_published = Some (publishedAt \<noteq> None), s_publishedAt = publishedAt,
      s_wordCount = Some 1, s_hasChapters = Some False,
      s_createdAt = Some 10, s_updatedAt = Some 10\<rparr>"

definition sampleLike :: "string \<Rightarrow> string \<Rightarrow> string \<Rightarrow> Like" where
  "sampleLike lid uid sid = \<lparr>l_id = lid, l_userId = uid, l_storyId = sid, l_createdAt = Some 60\<rparr>"

text \<open>Two users and five stories, one of them (\<open>s2\<close>, a poem) not published; two
  likes on \<open>s1\<close>, one on \<open>s3\<close> and on \<open>s5\<close>, none on \<open>s4\<close>.\<close>

definition feedDb :: db where
  "feedDb = emptyDb
     \<lparr>users := [sampleUser ''alice'', sampleUser ''bob''],
      stories := [sampleStory ''s1'' ''alice'' ''story'' (Some 30),
                  sampleStory ''s2'' ''alice'' ''poem'' None,
                  sampleStory ''s3'' ''bob'' ''poem'' (Some 50),
                  sampleStory ''s4'' ''alice'' ''story'' (Some 40),
                  sampleStory ''s5'' ''bob'' ''fanfiction'' (Some 20)],
      likes := [sampleLike ''l1'' ''bob'' ''s1'', sampleLike ''l2'' ''alice'' ''s1'',
                sampleLike ''l3'' ''alice'' ''s3'', sampleLike ''l4'' ''alice'' ''s5'']\<rparr>"

text \<open>A patch that sets nothing, and the data of a new story that leaves every
  optional key out.\<close>

definition noUpdates :: PartialInsertStory where
  "noUpdates = \<lparr>ps_title = Undefined, ps_content = Undefined, ps_excerpt = Undefined,
                ps_category = Undefined, ps_coverImageUrl = Undefined, ps_authorId = Undefined,
                ps_published = Undefined, ps_wordCount = Undefined, ps_hasChapters = Undefined\<rparr>"

definition sampleInsertStory :: "string \<Rightarrow> InsertStory" where
  "sampleInsertStory author =
     \<lparr>is_title = ''New'', is_content = ''Body'', is_excerpt = Undefined, is_category = ''story'',
      is_coverImageUrl = Undefined, is_authorId = author, is_published = Undefined,
      is_wordCount = Undefined, is_hasChapters = Undefined\<rparr>"


text \<open>A bookmark of Bob on \<open>s1\<close>, and the state after he created it at instant 70.\<close>

definition sampleBookmark :: "string \<Rightarrow> string \<Rightarrow> string option optional \<Rightarrow> InsertBookmark" where
  "sampleBookmark userId storyId note =
     \<lparr>ib_userId = userId, ib_storyId = storyId, ib_chapterId = Undefined, ib_position = 0,
      ib_note = note\<rparr>"

definition bookmarkedDb :: db where
  "bookmarkedDb = snd (createBookmark feedDb ''b1'' 70
                         (sampleBookmark ''bob'' ''s1'' (Defined (Some ''first''))))"

text \<open>The scenario of the specification: Alice creates a story at 10 and publishes
  it at 20; Bob likes it at 30.\<close>

definition startDb :: db where
  "startDb = emptyDb\<lparr>users := [sampleUser ''alice'', sampleUser ''bob'']\<rparr>"

definition createdDb :: db where
  "createdDb = snd (createStory startDb ''s1'' 10 (sampleInsertStory ''alice''))"

definition publishedDb :: db where
  "publishedDb = snd (publishStory createdDb 20 ''s1'')"

definition likedDb :: db where
  "likedDb = snd (toggleLike publishedDb ''l1'' ''n1'' 30 ''bob'' ''s1'')"

section \<open>Properties\<close>

lemmas sample_defs = feedDb_def emptyDb_def sampleUser_def sampleStory_def sampleLike_def

subsection \<open>Sorting\<close>

lemma mset_place: "mset (place precedes r xs) = add_mset r (mset xs)"
  by (induction xs) auto

lemma mset_sortRows: "mset (sortRows precedes rows) = mset rows"
  by (induction rows) (auto simp: sortRows_def mset_place)

lemma set_sortRows: "set (sortRows precedes rows) = set rows"
  using mset_sortRows [of precedes rows] by (metis set_mset_mset)


lemma set_place: "set (place precedes r xs) = insert r (set xs)"
  using mset_place [of precedes r xs] by (metis set_mset_mset set_mset_add_mset_insert)

lemma sorted_wrt_place:
  assumes total: "\<And>a b. precedes a b \<or> precedes b a"
    and trans: "\<And>a b c. precedes a b \<Longrightarrow> precedes b c \<Longrightarrow> precedes a c"
    and sorted: "sorted_wrt precedes xs"
  shows "sorted_wrt precedes (place precedes r xs)"
  using sorted
proof (induction xs)
  case Nil
  show ?case by simp
next
  case (Cons x xs)
  show ?case
  proof (cases "precedes r x")
    case True
    with Cons.prems trans show ?thesis by auto
  next
    case False
    with total have "precedes x r" by blast
    with Cons False show ?thesis by (auto simp: set_place)
  qed
qed

lemma sorted_wrt_sortRows:
  assumes total: "\<And>a b. precedes a b \<or> precedes b a"
    and trans: "\<And>a b c. precedes a b \<Longrightarrow> precedes b c \<Longrightarrow> precedes a c"
  shows "sorted_wrt precedes (sortRows precedes rows)"
proof (induction rows)
  case Nil
  show ?case by (simp add: sortRows_def)
next
  case (Cons r rows)
  have "sortRows precedes (r # rows) = place precedes r (sortRows precedes rows)"
    by (simp add: sortRows_def)
  with Cons sorted_wrt_place [OF total trans] show ?case by simp
qed

lemma nullsLargest_le_total: "nullsLargest_le a b \<or> nullsLargest_le b a"
  by (cases a; cases b) auto

lemma nullsLargest_le_trans:
  "nullsLargest_le a b \<Longrightarrow> nullsLargest_le b c \<Longrightarrow> nullsLargest_le a c"
  by (cases a; cases b; cases c) auto

lemma sorted_wrt_sortRows_asc: "sorted_wrt (asc col) (sortRows (asc col) rows)"
  by (rule sorted_wrt_sortRows) (auto simp: asc_def)

lemma sorted_wrt_sortRows_desc: "sorted_wrt (desc col) (sortRows (desc col) rows)"
proof (rule sorted_wrt_sortRows)
  show "desc col a b \<or> desc col b a" for a b
    by (simp add: desc_def nullsLargest_le_total)
  show "desc col a b \<Longrightarrow> desc col b c \<Longrightarrow> desc col a c" for a b c
    unfolding desc_def by (rule nullsLargest_le_trans)
qed

subsection \<open>Chapters of a story\<close>

text \<open>
  C8. \<open>getStoryChapters\<close> returns exactly the chapters of the story that the table
  holds, each as often as the table holds it and whatever its \<open>published\<close> flag, in
  ascending order of chapter number; a table holding the same rows in another storage
  order gives a result with the same rows, again in ascending order.
\<close>

theorem getStoryChapters_all_ascending:
  "mset (getStoryChapters d storyId) = filter_mset (\<lambda>c. c_storyId c = storyId) (mset (chapters d))
   \<and> sorted (map c_chapterNumber (getStoryChapters d storyId))
   \<and> (mset (chapters d') = mset (chapters d) \<longrightarrow>
        mset (getStoryChapters d' storyId) = mset (getStoryChapters d storyId)
        \<and> sorted (map c_chapterNumber (getStoryChapters d' storyId)))"
proof -
  have m: "mset (getStoryChapters e storyId)
           = filter_mset (\<lambda>c. c_storyId c = storyId) (mset (chapters e))" for e
    by (simp add: getStoryChapters_def mset_sortRows)
  have "sorted_wrt (asc c_chapterNumber) (getStoryChapters e storyId)" for e
    unfolding getStoryChapters_def by (rule sorted_wrt_sortRows_asc)
  then have s: "sorted (map c_chapterNumber (getStoryChapters e storyId))" for e
    by (simp add: sorted_wrt_map sorted_map asc_def [abs_def])
  from m s show ?thesis by simp
qed

text \<open>On a table of four chapters, three of them of story \<open>s1\<close> and stored out of
  order, and on the same table reversed.\<close>

theorem getStoryChapters_all_ascending_witness:
  "mset (chapters (chaptersDb\<lparr>chapters := rev (chapters chaptersDb)\<rparr>)) = mset (chapters chaptersDb)
   \<and> map c_id (getStoryChapters chaptersDb ''s1'') = [''c1'', ''c2'', ''c3'']
   \<and> map c_published (getStoryChapters chaptersDb ''s1'') = [Some True, Some False, Some False]
   \<and> map c_id (getStoryChapters (chaptersDb\<lparr>chapters := rev (chapters chaptersDb)\<rparr>) ''s1'')
       = [''c1'', ''c2'', ''c3'']
   \<and> mset (getStoryChapters (chaptersDb\<lparr>chapters := rev (chapters chaptersDb)\<rparr>) ''s1'')
       = mset (getStoryChapters chaptersDb ''s1'')
   \<and> sorted (map c_chapterNumber
         (getStoryChapters (chaptersDb\<lparr>chapters := rev (chapters chaptersDb)\<rparr>) ''s1''))"
  using getStoryChapters_all_ascending
          [of chaptersDb "''s1''" "chaptersDb\<lparr>chapters := rev (chapters chaptersDb)\<rparr>"]
  by (simp add: getStoryChapters_def chaptersDb_def emptyDb_def sampleChapter_def sortRows_def
        asc_def)

subsection \<open>Stories of an author\<close>

text \<open>
  C10. \<open>getStoriesByAuthor\<close> returns only stories of that author whose \<open>published\<close>
  flag is true, so none of the author's unpublished stories; it returns each such row
  of the table; and the rows are in descending order of publish timestamp (NULL
  first, as PostgreSQL orders it).
\<close>

theorem getStoriesByAuthor_published_desc:
  "(\<forall>s \<in> set (getStoriesByAuthor d authorId). s_published s = Some True \<and> s_authorId s = authorId)
   \<and> mset (getStoriesByAuthor d authorId)
       = filter_mset (\<lambda>s. s_authorId s = authorId \<and> s_published s = Some True) (mset (stories d))
   \<and> sorted_wrt (\<lambda>a b. nullsLargest_le (s_publishedAt b) (s_publishedAt a))
        (getStoriesByAuthor d authorId)"
proof -
  have "sorted_wrt (desc s_publishedAt) (getStoriesByAuthor d authorId)"
    unfolding getStoriesByAuthor_def by (rule sorted_wrt_sortRows_desc)
  then have "sorted_wrt (\<lambda>a b. nullsLargest_le (s_publishedAt b) (s_publishedAt a))
               (getStoriesByAuthor d authorId)"
    by (simp add: desc_def [abs_def])
  then show ?thesis
    by (simp add: getStoriesByAuthor_def mset_sortRows set_sortRows)
qed

text \<open>Alice has three stories, \<open>s2\<close> unpublished: her listing is \<open>s4\<close> (published at
  40), then \<open>s1\<close> (at 30).\<close>

theorem getStoriesByAuthor_published_desc_witness:
  "map s_id (getStoriesByAuthor feedDb ''alice'') = [''s4'', ''s1'']
   \<and> map (\<lambda>s. (s_authorId s, s_published s, s_publishedAt s))
         (getStoriesByAuthor feedDb ''alice'')
       = [(''alice'', Some True, Some 40), (''alice'', Some True, Some 30)]"
  using getStoriesByAuthor_published_desc [of feedDb "''alice''"]
  by (simp add: getStoriesByAuthor_def sample_defs sortRows_def desc_def)

subsection \<open>The publish invariant\<close>

lemma list_all_updateWhere:
  assumes "list_all P rows" and "\<And>r. r \<in> set rows \<Longrightarrow> P r \<Longrightarrow> c r \<Longrightarrow> P (f r)"
  shows "list_all P (updateWhere c f rows)"
  using assms by (auto simp: updateWhere_def list_all_iff)

lemma orDefault_False_neq_True:
  "(orDefault p False \<noteq> Some True) = (p \<noteq> Defined (Some True))"
  by (cases p) auto

text \<open>
  C7, as the claim states it, fails: \<open>published\<close> is a key of \<open>InsertStory\<close> and of
  the patch of \<open>updateStory\<close>, and neither method touches \<open>publishedAt\<close>. From a state
  in which every row satisfies the invariant, a patch \<open>{published: true}\<close> on the
  unpublished story \<open>s2\<close>, and the creation of a story with \<open>published: true\<close>, each
  leave a row with \<open>published = true\<close> and \<open>publishedAt\<close> NULL.
\<close>

theorem publish_invariant_counterexample:
  "storiesInvariant feedDb
   \<and> \<not> storiesInvariant
         (snd (updateStory feedDb 60 ''s2'' (noUpdates\<lparr>ps_published := Defined (Some True)\<rparr>)))
   \<and> \<not> storiesInvariant
         (snd (createStory feedDb ''s6'' 60
                 ((sampleInsertStory ''alice'')\<lparr>is_published := Defined (Some True)\<rparr>)))"
  by (simp add: storiesInvariant_def publishInvariant_def updateStory_def createStory_def
        applyUpdates_def noUpdates_def sampleInsertStory_def updateWhere_def storyExists_def
        userExists_def sample_defs Let_def)

text \<open>
  C7, amended. From a state in which every story row satisfies the invariant:
  \<open>enableChaptersOnStory\<close> preserves it; \<open>publishStory\<close> preserves it when the rows it
  publishes were created at or before the instant of the call; \<open>createStory\<close> preserves
  it when the data does not set \<open>published\<close> to true; \<open>updateStory\<close> preserves it when
  the patch leaves \<open>published\<close> out.
\<close>

theorem publish_invariant_preserved:
  assumes inv: "storiesInvariant d"
  shows "storiesInvariant (snd (enableChaptersOnStory d now sid))
    \<and> (list_all (\<lambda>s. s_id s = sid \<longrightarrow> createdNotAfter now s) (stories d)
         \<longrightarrow> storiesInvariant (snd (publishStory d now sid)))
    \<and> (is_published story \<noteq> Defined (Some True)
         \<longrightarrow> storiesInvariant (snd (createStory d newId now story)))
    \<and> (ps_published updates = Undefined
         \<longrightarrow> storiesInvariant (snd (updateStory d now sid updates)))"
proof (intro conjI impI)
  from inv have all: "list_all publishInvariant (stories d)"
    by (simp add: storiesInvariant_def)
  have "publishInvariant (r\<lparr>s_hasChapters := Some True, s_updatedAt := Some now\<rparr>)"
    if "publishInvariant r" for r
    using that by (simp add: publishInvariant_def)
  with all show "storiesInvariant (snd (enableChaptersOnStory d now sid))"
    by (auto simp: storiesInvariant_def enableChaptersOnStory_def Let_def
          intro!: list_all_updateWhere)
  show "storiesInvariant (snd (publishStory d now sid))"
    if clock: "list_all (\<lambda>s. s_id s = sid \<longrightarrow> createdNotAfter now s) (stories d)"
  proof -
    have "publishInvariant (r\<lparr>s_published := Some True, s_publishedAt := Some now,
                               s_updatedAt := Some now\<rparr>)"
      if "r \<in> set (stories d)" "s_id r = sid" for r
      using that clock
      by (auto simp: publishInvariant_def createdNotAfter_def list_all_iff)
    with all show ?thesis
      by (auto simp: storiesInvariant_def publishStory_def Let_def intro!: list_all_updateWhere)
  qed
  show "storiesInvariant (snd (createStory d newId now story))"
    if "is_published story \<noteq> Defined (Some True)"
    using all that
    by (simp add: storiesInvariant_def createStory_def Let_def publishInvariant_def
          orDefault_False_neq_True)
  show "storiesInvariant (snd (updateStory d now sid updates))"
    if unset: "ps_published updates = Undefined"
  proof -
    have "publishInvariant (applyUpdates updates now r)" if "publishInvariant r" for r
      using that unset
      by (simp add: publishInvariant_def applyUpdates_def)
    with all show ?thesis
      by (auto simp: storiesInvariant_def updateStory_def Let_def intro!: list_all_updateWhere)
  qed
qed

text \<open>On the sample state: enabling chapters on \<open>s2\<close>, publishing it at 60 (it was
  created at 10), creating a story without the \<open>published\<close> key, renaming \<open>s2\<close>.\<close>

theorem publish_invariant_preserved_witness:
  "storiesInvariant feedDb
   \<and> storiesInvariant (snd (enableChaptersOnStory feedDb 60 ''s2''))
   \<and> list_all (\<lambda>s. s_id s = ''s2'' \<longrightarrow> createdNotAfter 60 s) (stories feedDb)
   \<and> storiesInvariant (snd (publishStory feedDb 60 ''s2''))
   \<and> map_option s_publishedAt (getStory (snd (publishStory feedDb 60 ''s2'')) ''s2'') = Some (Some 60)
   \<and> is_published (sampleInsertStory ''alice'') \<noteq> Defined (Some True)
   \<and> storiesInvariant (snd (createStory feedDb ''s6'' 60 (sampleInsertStory ''alice'')))
   \<and> length (stories (snd (createStory feedDb ''s6'' 60 (sampleInsertStory ''alice'')))) = 6
   \<and> ps_published (noUpdates\<lparr>ps_title := Defined ''Renamed''\<rparr>) = Undefined
   \<and> storiesInvariant (snd (updateStory feedDb 60 ''s2'' (noUpdates\<lparr>ps_title := Defined ''Renamed''\<rparr>)))
   \<and> map_option s_title (getStory (snd (updateStory feedDb 60 ''s2'' (noUpdates\<lparr>ps_title := Defined ''Renamed''\<rparr>))) ''s2'') = Some ''Renamed''"
proof -
  have inv: "storiesInvariant feedDb"
    by (simp add: storiesInvariant_def publishInvariant_def sample_defs)
  have clock: "list_all (\<lambda>s. s_id s = ''s2'' \<longrightarrow> createdNotAfter 60 s) (stories feedDb)"
    by (simp add: createdNotAfter_def sample_defs)
  have a: "is_published (sampleInsertStory ''alice'') \<noteq> Defined (Some True)"
    by (simp add: sampleInsertStory_def)
  have b: "ps_published (noUpdates\<lparr>ps_title := Defined ''Renamed''\<rparr>) = Undefined"
    by (simp add: noUpdates_def)
  have c: "map_option s_publishedAt (getStory (snd (publishStory feedDb 60 ''s2'')) ''s2'') = Some (Some 60)"
    by (simp add: getStory_def publishStory_def updateWhere_def sample_defs)
  have e: "length (stories (snd (createStory feedDb ''s6'' 60 (sampleInsertStory ''alice'')))) = 6"
    by (simp add: createStory_def storyExists_def userExists_def sampleInsertStory_def Let_def sample_defs)
  have f: "map_option s_title (getStory (snd (updateStory feedDb 60 ''s2'' (noUpdates\<lparr>ps_title := Defined ''Renamed''\<rparr>))) ''s2'') = Some ''Renamed''"
    by (simp add: getStory_def updateStory_def updateWhere_def applyUpdates_def noUpdates_def
          storyExists_def Let_def sample_defs)
  from publish_invariant_preserved [OF inv, of 60 "''s2''" "sampleInsertStory ''alice''" "''s6''"
         "noUpdates\<lparr>ps_title := Defined ''Renamed''\<rparr>"] inv clock a b c e f
  show ?thesis by blast
qed

subsection \<open>Enabling chapters\<close>

text \<open>
  C9, as the claim states it, fails: the update sets \<open>updatedAt\<close> as well. Story \<open>s1\<close>
  was last updated at 10; after \<open>enableChaptersOnStory\<close> at 99 its \<open>updatedAt\<close> is 99.
\<close>

theorem enableChaptersOnStory_updatedAt_counterexample:
  "map_option s_updatedAt (getStory feedDb ''s1'') = Some (Some 10)
   \<and> map_option s_updatedAt (getStory (snd (enableChaptersOnStory feedDb 99 ''s1'')) ''s1'')
       = Some (Some 99)"
  by (simp add: getStory_def enableChaptersOnStory_def updateWhere_def sample_defs)

text \<open>
  C9, amended. \<open>enableChaptersOnStory\<close> sets \<open>hasChapters\<close> to true and \<open>updatedAt\<close> to
  the instant of the call in the rows of \<open>stories\<close> with that id, and changes no other
  column of them (id, title, content, excerpt, category, coverImageUrl, authorId,
  published, publishedAt, wordCount, createdAt); every other story row and every
  other table is as it was. It returns the row as updated (nothing when no row has
  the id).
\<close>

theorem enableChaptersOnStory_frame:
  "list_all2
     (\<lambda>s s'. s_id s' = s_id s \<and> s_title s' = s_title s \<and> s_content s' = s_content s
        \<and> s_excerpt s' = s_excerpt s \<and> s_category s' = s_category s
        \<and> s_coverImageUrl s' = s_coverImageUrl s \<and> s_authorId s' = s_authorId s
        \<and> s_published s' = s_published s \<and> s_publishedAt s' = s_publishedAt s
        \<and> s_wordCount s' = s_wordCount s \<and> s_createdAt s' = s_createdAt s
        \<and> (if s_id s = sid
            then s_hasChapters s' = Some True \<and> s_updatedAt s' = Some now
            else s' = s))
     (stories d) (stories (snd (enableChaptersOnStory d now sid)))
   \<and> users (snd (enableChaptersOnStory d now sid)) = users d
   \<and> chapters (snd (enableChaptersOnStory d now sid)) = chapters d
   \<and> likes (snd (enableChaptersOnStory d now sid)) = likes d
   \<and> notifications (snd (enableChaptersOnStory d now sid)) = notifications d
   \<and> bookmarks (snd (enableChaptersOnStory d now sid)) = bookmarks d
   \<and> fst (enableChaptersOnStory d now sid)
       = getStory (snd (enableChaptersOnStory d now sid)) sid"
  by (simp add: enableChaptersOnStory_def getStory_def updateWhere_def Let_def
        list_all2_map2 list_all2_same)

text \<open>On the sample state, for story \<open>s1\<close> at instant 99.\<close>

theorem enableChaptersOnStory_frame_witness:
  "map (\<lambda>s. (s_id s, s_hasChapters s, s_updatedAt s))
       (stories (snd (enableChaptersOnStory feedDb 99 ''s1'')))
     = [(''s1'', Some True, Some 99), (''s2'', Some False, Some 10),
        (''s3'', Some False, Some 10), (''s4'', Some False, Some 10),
        (''s5'', Some False, Some 10)]
   \<and> list_all2 (\<lambda>s s'. s_title s' = s_title s \<and> s_published s' = s_published s
                  \<and> s_publishedAt s' = s_publishedAt s
                  \<and> (if s_id s = ''s1''
                      then s_hasChapters s' = Some True \<and> s_updatedAt s' = Some 99
                      else s' = s))
       (stories feedDb) (stories (snd (enableChaptersOnStory feedDb 99 ''s1'')))"
  using enableChaptersOnStory_frame [of "''s1''" 99 feedDb]
  by (simp add: enableChaptersOnStory_def updateWhere_def Let_def sample_defs)

subsection \<open>The feed query: joins and grouping\<close>

lemma filter_key_distinct:
  "distinct (map key rs) \<Longrightarrow> length (filter (\<lambda>y. c = key y) rs) \<le> 1"
proof (induction rs)
  case Nil
  show ?case by simp
next
  case (Cons r rs)
  then have "c = key r \<Longrightarrow> filter (\<lambda>y. c = key y) rs = []"
    by (auto simp: filter_empty_conv)
  with Cons show ?case by auto
qed

lemma leftJoin_key:
  assumes "distinct (map key rs)"
  shows "leftJoin ls rs (\<lambda>x y. ref x = key y)
         = map (\<lambda>x. (x, firstRow (filter (\<lambda>y. ref x = key y) rs))) ls"
proof -
  have "(case filter (\<lambda>y. ref x = key y) rs of [] \<Rightarrow> [(x, None)] | ms \<Rightarrow> map (\<lambda>y. (x, Some y)) ms)
        = [(x, firstRow (filter (\<lambda>y. ref x = key y) rs))]" for x
  proof (cases "filter (\<lambda>y. ref x = key y) rs")
    case Nil
    then show ?thesis by simp
  next
    case (Cons y ys)
    with filter_key_distinct [OF assms, of "ref x"] have "ys = []" by simp
    with Cons show ?thesis by simp
  qed
  then show ?thesis by (simp add: leftJoin_def)
qed

lemma joinedRows_blocks:
  assumes "distinct (map u_id (users d))"
  shows "joinedRows d = concat (map (storyBlock d) (stories d))"
  unfolding joinedRows_def leftJoin_key [OF assms, of _ s_authorId]
  by (simp add: leftJoin_def storyBlock_def [abs_def] authorRow_def comp_def cong: list.case_cong)

lemma storyBlock_nonempty: "storyBlock d s \<noteq> []"
  by (simp add: storyBlock_def split: list.splits)

lemma storyOf_storyBlock: "j \<in> set (storyBlock d s) \<Longrightarrow> storyOf j = s \<and> authorOf j = authorRow d s"
  by (auto simp: storyBlock_def storyOf_def authorOf_def split: list.splits)

lemma filter_storyBlock:
  "filter (\<lambda>j. P (storyOf j)) (storyBlock d s) = (if P s then storyBlock d s else [])"
proof -
  have "filter (\<lambda>j. P (storyOf j)) (storyBlock d s) = filter (\<lambda>j. P s) (storyBlock d s)"
    by (rule filter_cong) (auto dest: storyOf_storyBlock)
  then show ?thesis by simp
qed

lemma filter_blocks:
  "filter (\<lambda>j. P (storyOf j)) (concat (map (storyBlock d) ss))
   = concat (map (storyBlock d) (filter P ss))"
  by (induction ss) (simp_all add: filter_storyBlock)

lemma groupBy_blocks:
  assumes "distinct (map s_id ss)"
  shows "groupBy groupKey (concat (map (storyBlock d) ss))
         = map (\<lambda>s. (hd (storyBlock d s), tl (storyBlock d s))) ss"
  using assms
proof (induction ss)
  case Nil
  show ?case by simp
next
  case (Cons s ss)
  obtain j js where b: "storyBlock d s = j # js"
    using storyBlock_nonempty [of d s] by (cases "storyBlock d s") auto
  let ?rest = "concat (map (storyBlock d) ss)"
  have key: "groupKey x = (s_id s, map_option u_id (authorRow d s))" if "x \<in> set (j # js)" for x
    using that storyOf_storyBlock [of x d s] by (simp add: b groupKey_def)
  have other: "groupKey x \<noteq> groupKey j" if "x \<in> set ?rest" for x
  proof -
    from that obtain t where t: "t \<in> set ss" "x \<in> set (storyBlock d t)" by auto
    from Cons.prems have "s_id s \<notin> s_id ` set ss" by simp
    moreover from t have "s_id t \<in> s_id ` set ss" by simp
    ultimately have "s_id t \<noteq> s_id s" by metis
    with t key [of j] storyOf_storyBlock [of x d t] show ?thesis
      by (simp add: groupKey_def)
  qed
  have same: "groupKey x = groupKey j" if "x \<in> set js" for x
    using that key [of x] key [of j] by simp
  have f1: "filter (\<lambda>x. groupKey x = groupKey j) (js @ ?rest) = js"
    using same other by (simp add: filter_id_conv filter_empty_conv)
  have f2: "filter (\<lambda>x. groupKey x \<noteq> groupKey j) (js @ ?rest) = ?rest"
    using same other by (simp add: filter_id_conv filter_empty_conv)
  from Cons have "groupBy groupKey ?rest = map (\<lambda>s. (hd (storyBlock d s), tl (storyBlock d s))) ss"
    by simp
  with f1 f2 show ?case by (simp add: b)
qed

lemma selectFields_storyBlock:
  "selectFields (hd (storyBlock d s), tl (storyBlock d s)) = storyRow d s"
proof (cases "filter (\<lambda>l. s_id s = l_storyId l) (likes d)")
  case Nil
  then have "filter (\<lambda>l. l_storyId l = s_id s) (likes d) = []"
    by (auto simp: filter_empty_conv)
  with Nil show ?thesis
    by (simp add: storyBlock_def storyRow_def storyOf_def authorOf_def likeOf_def getLikeCount_def)
next
  case (Cons l ls)
  have "length (filter (\<lambda>l. l_storyId l = s_id s) (likes d)) = length (l # ls)"
    unfolding Cons [symmetric] by (rule arg_cong [where f = length], rule filter_cong) auto
  with Cons show ?thesis
    by (simp add: storyBlock_def storyRow_def storyOf_def authorOf_def likeOf_def getLikeCount_def
          comp_def)
qed

lemma groupedRows_storyRow:
  assumes "primaryKeys d" and "cfg_where q = Some (\<lambda>j. P (storyOf j))"
  shows "groupedRows d q = map (storyRow d) (filter P (stories d))"
proof -
  from assms have u: "distinct (map u_id (users d))" and s: "distinct (map s_id (filter P (stories d)))"
    by (simp_all add: primaryKeys_def distinct_map_filter)
  show ?thesis
    by (simp add: groupedRows_def assms(2) joinedRows_blocks [OF u] filter_blocks
          groupBy_blocks [OF s] selectFields_storyBlock comp_def del: selectFields.simps)
qed

lemma cfg_where_publishedStoriesQuery:
  "cfg_where (publishedStoriesQuery category sortBy)
   = Some (\<lambda>j. effectiveFilter category (storyOf j))"
  by (simp add: publishedStoriesQuery_def selWhere_def selOrderBy_def selLimit_def baseQuery_def
        effectiveFilter_def Let_def)

lemma cfg_orderBy_publishedStoriesQuery:
  "cfg_orderBy (publishedStoriesQuery category sortBy)
   = Some (if sortBy = Defined ''recent'' then desc r_publishedAt
           else thenBy (desc (Some \<circ> r_likeCount)) (desc r_publishedAt))"
  by (simp add: publishedStoriesQuery_def selWhere_def selOrderBy_def selLimit_def baseQuery_def
        Let_def)

lemma cfg_limit_publishedStoriesQuery:
  "cfg_limit (publishedStoriesQuery category sortBy) = Some 50"
  by (simp add: publishedStoriesQuery_def selWhere_def selOrderBy_def selLimit_def baseQuery_def
        Let_def)

lemma getPublishedStories_take:
  "getPublishedStories d category sortBy
   = take 50 (sortRows (if sortBy = Defined ''recent'' then desc r_publishedAt
                        else thenBy (desc (Some \<circ> r_likeCount)) (desc r_publishedAt))
                (groupedRows d (publishedStoriesQuery category sortBy)))"
  by (simp add: getPublishedStories_def runSelect_def cfg_orderBy_publishedStoriesQuery
        cfg_limit_publishedStoriesQuery Let_def)

lemma desc_recent: "desc r_publishedAt = recent"
  by (simp add: desc_def recent_def fun_eq_iff)

lemma thenBy_trending: "thenBy (desc (Some \<circ> r_likeCount)) (desc r_publishedAt) = trending"
  by (auto simp: thenBy_def desc_def trending_def fun_eq_iff)

lemma recent_total: "recent a b \<or> recent b a"
  by (simp add: recent_def nullsLargest_le_total)

lemma recent_trans: "recent a b \<Longrightarrow> recent b c \<Longrightarrow> recent a c"
  unfolding recent_def by (rule nullsLargest_le_trans)

lemma trending_total: "trending a b \<or> trending b a"
  using nullsLargest_le_total [of "r_publishedAt a" "r_publishedAt b"]
  by (auto simp: trending_def)

lemma trending_trans: "trending a b \<Longrightarrow> trending b c \<Longrightarrow> trending a c"
  by (auto simp: trending_def dest: nullsLargest_le_trans)

subsection \<open>The feed query: order\<close>

text \<open>
  C4. The rows of \<open>getPublishedStories\<close> descend by publish timestamp when \<open>sortBy\<close>
  is \<open>"recent"\<close>; for every other \<open>sortBy\<close> (\<open>"trending"\<close>, any other string, none)
  they descend by like count, and rows with equal like count descend by publish
  timestamp. A NULL timestamp stands first, as PostgreSQL orders it.
\<close>

theorem getPublishedStories_order:
  "(sortBy = Defined ''recent'' \<longrightarrow>
      sorted_wrt (\<lambda>a b. nullsLargest_le (r_publishedAt b) (r_publishedAt a))
        (getPublishedStories d category sortBy))
   \<and> (sortBy \<noteq> Defined ''recent'' \<longrightarrow>
      sorted_wrt (\<lambda>a b. r_likeCount b < r_likeCount a
                     \<or> (r_likeCount a = r_likeCount b
                        \<and> nullsLargest_le (r_publishedAt b) (r_publishedAt a)))
        (getPublishedStories d category sortBy))"
proof (intro conjI impI)
  assume "sortBy = Defined ''recent''"
  then have "getPublishedStories d category sortBy
             = take 50 (sortRows recent (groupedRows d (publishedStoriesQuery category sortBy)))"
    by (simp add: getPublishedStories_take desc_recent)
  moreover have "sorted_wrt recent (sortRows recent rows)" for rows
    using recent_total recent_trans by (rule sorted_wrt_sortRows)
  ultimately have "sorted_wrt recent (getPublishedStories d category sortBy)"
    by (simp add: sorted_wrt_take)
  then show "sorted_wrt (\<lambda>a b. nullsLargest_le (r_publishedAt b) (r_publishedAt a))
               (getPublishedStories d category sortBy)"
    by (simp add: recent_def [abs_def])
next
  assume "sortBy \<noteq> Defined ''recent''"
  then have "getPublishedStories d category sortBy
             = take 50 (sortRows trending (groupedRows d (publishedStoriesQuery category sortBy)))"
    by (simp add: getPublishedStories_take thenBy_trending)
  moreover have "sorted_wrt trending (sortRows trending rows)" for rows
    using trending_total trending_trans by (rule sorted_wrt_sortRows)
  ultimately have "sorted_wrt trending (getPublishedStories d category sortBy)"
    by (simp add: sorted_wrt_take)
  then show "sorted_wrt (\<lambda>a b. r_likeCount b < r_likeCount a
                     \<or> (r_likeCount a = r_likeCount b
                        \<and> nullsLargest_le (r_publishedAt b) (r_publishedAt a)))
               (getPublishedStories d category sortBy)"
    by (simp add: trending_def [abs_def])
qed

lemmas query_defs = getPublishedStories_def runSelect_def groupedRows_def joinedRows_def
  publishedStoriesQuery_def selWhere_def selOrderBy_def selLimit_def baseQuery_def leftJoin_def
  groupKey_def storyOf_def authorOf_def likeOf_def sortRows_def desc_def thenBy_def Let_def

text \<open>On the sample state: by recency \<open>s3, s4, s1, s5\<close>; by default, and for
  \<open>"trending"\<close> and the unknown \<open>"newest"\<close> alike, \<open>s1\<close> (2 likes), then \<open>s3\<close> and
  \<open>s5\<close> (1 like each, the later one first), then \<open>s4\<close> (none).\<close>

theorem getPublishedStories_order_witness:
  "map (\<lambda>r. (r_id r, r_publishedAt r))
       (getPublishedStories feedDb Undefined (Defined ''recent''))
     = [(''s3'', Some 50), (''s4'', Some 40), (''s1'', Some 30), (''s5'', Some 20)]
   \<and> sorted_wrt (\<lambda>a b. nullsLargest_le (r_publishedAt b) (r_publishedAt a))
        (getPublishedStories feedDb Undefined (Defined ''recent''))
   \<and> map (\<lambda>r. (r_id r, r_likeCount r, r_publishedAt r))
        (getPublishedStories feedDb Undefined Undefined)
     = [(''s1'', 2, Some 30), (''s3'', 1, Some 50), (''s5'', 1, Some 20), (''s4'', 0, Some 40)]
   \<and> getPublishedStories feedDb Undefined (Defined ''trending'')
     = getPublishedStories feedDb Undefined Undefined
   \<and> getPublishedStories feedDb Undefined (Defined ''newest'')
     = getPublishedStories feedDb Undefined Undefined
   \<and> sorted_wrt (\<lambda>a b. r_likeCount b < r_likeCount a
                    \<or> (r_likeCount a = r_likeCount b
                       \<and> nullsLargest_le (r_publishedAt b) (r_publishedAt a)))
        (getPublishedStories feedDb Undefined Undefined)"
proof -
  have a: "map (\<lambda>r. (r_id r, r_publishedAt r))
             (getPublishedStories feedDb Undefined (Defined ''recent''))
           = [(''s3'', Some 50), (''s4'', Some 40), (''s1'', Some 30), (''s5'', Some 20)]"
    by (simp add: query_defs sample_defs)
  have b: "map (\<lambda>r. (r_id r, r_likeCount r, r_publishedAt r))
             (getPublishedStories feedDb Undefined Undefined)
           = [(''s1'', 2, Some 30), (''s3'', 1, Some 50), (''s5'', 1, Some 20),
              (''s4'', 0, Some 40)]"
    by (simp add: query_defs sample_defs)
  have c: "getPublishedStories d Undefined (Defined ''trending'')
           = getPublishedStories d Undefined Undefined"
          "getPublishedStories d Undefined (Defined ''newest'')
           = getPublishedStories d Undefined Undefined" for d
    by (simp_all add: getPublishedStories_def publishedStoriesQuery_def)
  from getPublishedStories_order [of "Defined ''recent''" feedDb Undefined]
       getPublishedStories_order [of Undefined feedDb Undefined] a b c
  show ?thesis by simp
qed

subsection \<open>The feed query: filters\<close>

lemma groupBy_first_mem: "(j, js) \<in> set (groupBy key rows) \<Longrightarrow> j \<in> set rows"
proof (induction key rows rule: groupBy.induct)
  case (1 key)
  then show ?case by simp
next
  case (2 key r rs)
  then show ?case by auto
qed

lemma groupedRows_effective:
  assumes "r \<in> set (groupedRows d (publishedStoriesQuery category sortBy))"
  shows "if categoryGiven category then r_category r = categoryOf category
         else r_published r = Some True"
proof -
  from assms obtain j js where
    g: "(j, js) \<in> set (groupBy groupKey
          (filter (\<lambda>j. effectiveFilter category (storyOf j)) (joinedRows d)))"
    and r: "r = selectFields (j, js)"
    by (auto simp: groupedRows_def cfg_where_publishedStoriesQuery)
  from groupBy_first_mem [OF g] have "effectiveFilter category (storyOf j)" by simp
  with r show ?thesis by (simp add: effectiveFilter_def)
qed

lemma getPublishedStories_effective:
  assumes "r \<in> set (getPublishedStories d category sortBy)"
  shows "if categoryGiven category then r_category r = categoryOf category
         else r_published r = Some True"
proof -
  from assms have "r \<in> set (groupedRows d (publishedStoriesQuery category sortBy))"
    unfolding getPublishedStories_take by (auto simp: set_sortRows dest: in_set_takeD)
  then show ?thesis by (rule groupedRows_effective)
qed

text \<open>
  C3. The claim is that every returned row has \<open>published = true\<close>, and the given
  category as well when one is given. The code calls \<open>.where\<close> twice on one builder,
  and the second condition replaces the first (lemma \<open>getPublishedStories_effective\<close>
  above: with a category the rows have that category, and only without one are they
  published). On the sample state, \<open>getPublishedStories("poem")\<close> returns the poem
  \<open>s2\<close>, which is not published.
\<close>

theorem getPublishedStories_category_drops_published:
  "map_option s_published (getStory feedDb ''s2'') = Some (Some False)
   \<and> map (\<lambda>r. (r_id r, r_category r, r_published r))
         (getPublishedStories feedDb (Defined ''poem'') Undefined)
       = [(''s3'', ''poem'', Some True), (''s2'', ''poem'', Some False)]"
  by (simp add: query_defs getStory_def sample_defs)

subsection \<open>The feed query: stories without likes, and the cap\<close>


text \<open>With unique primary keys, every row of the result is the row of a story that
  passes the condition, so its \<open>likeCount\<close> is the number of that story's likes.\<close>

lemma getPublishedStories_rows:
  assumes "primaryKeys d" and "r \<in> set (getPublishedStories d category sortBy)"
  shows "\<exists>s \<in> set (stories d). effectiveFilter category s \<and> r = storyRow d s"
proof -
  from assms(2) have "r \<in> set (groupedRows d (publishedStoriesQuery category sortBy))"
    unfolding getPublishedStories_take by (auto simp: set_sortRows dest: in_set_takeD)
  then show ?thesis
    by (auto simp: groupedRows_storyRow [OF assms(1) cfg_where_publishedStoriesQuery])
qed










subsection \<open>Toggling a like\<close>

lemma getStory_None_iff: "(getStory d sid = None) = (\<not> storyExists d sid)"
proof -
  have "(filter (\<lambda>s. s_id s = sid) (stories d) = []) = (\<not> storyExists d sid)"
    by (auto simp: storyExists_def filter_empty_conv)
  then show ?thesis
    by (cases "filter (\<lambda>s. s_id s = sid) (stories d)") (simp_all add: getStory_def)
qed

lemma getStory_likes_update [simp]: "getStory (d\<lparr>likes := ls\<rparr>) sid = getStory d sid"
  by (simp add: getStory_def)

lemma length_filter_delete:
  "length (filter (\<lambda>l. l_storyId l = s)
             (filter (\<lambda>l. \<not> (l_userId l = u \<and> l_storyId l = s)) ls))
   + length (filter (\<lambda>l. l_userId l = u \<and> l_storyId l = s) ls)
   = length (filter (\<lambda>l. l_storyId l = s) ls)"
  by (induction ls) auto

lemma getLikeCount_after_delete:
  "getLikeCount (d\<lparr>likes := filter (\<lambda>l. \<not> (l_userId l = u \<and> l_storyId l = s)) (likes d)\<rparr>) s
   = getLikeCount d s - pairLikes d u s"
  using length_filter_delete [of s u "likes d"]
  unfolding getLikeCount_def pairLikes_def by simp

lemma pairLikes_le: "pairLikes d u s \<le> getLikeCount d s"
proof -
  have "filter (\<lambda>l. l_userId l = u \<and> l_storyId l = s) (likes d)
        = filter (\<lambda>l. l_userId l = u) (filter (\<lambda>l. l_storyId l = s) (likes d))"
    by (simp add: conj_commute)
  then show ?thesis
    unfolding pairLikes_def getLikeCount_def by (metis length_filter_le)
qed

lemma toggleLike_unlike:
  assumes "0 < pairLikes d u s"
  shows "toggleLike d lid nid now u s
         = (Inr \<lparr>liked = False, count' = getLikeCount d s - pairLikes d u s\<rparr>,
            d\<lparr>likes := filter (\<lambda>l. \<not> (l_userId l = u \<and> l_storyId l = s)) (likes d)\<rparr>)"
proof -
  from assms have "filter (\<lambda>l. l_userId l = u \<and> l_storyId l = s) (likes d) \<noteq> []"
    by (auto simp: pairLikes_def)
  then have "toggleLike d lid nid now u s
             = (Inr \<lparr>liked = False,
                     count' = getLikeCount
                       (d\<lparr>likes := filter (\<lambda>l. \<not> (l_userId l = u \<and> l_storyId l = s)) (likes d)\<rparr>) s\<rparr>,
                d\<lparr>likes := filter (\<lambda>l. \<not> (l_userId l = u \<and> l_storyId l = s)) (likes d)\<rparr>)"
    by (simp add: toggleLike_def Let_def)
  then show ?thesis
    unfolding getLikeCount_after_delete .
qed

lemma toggleLike_like:
  assumes none: "pairLikes d u s = 0" and ok: "likeAccepted d lid nid u s"
    and story: "getStory d s = Some story"
  shows "toggleLike d lid nid now u s
         = (Inr \<lparr>liked = True, count' = getLikeCount d s + 1\<rparr>,
            d\<lparr>likes := likes d @ [newLikeRow lid now u s],
              notifications := notifications d @
                (if s_authorId story \<noteq> u then [likeNotification nid now (s_authorId story) s]
                 else [])\<rparr>)"
proof -
  from none have e: "filter (\<lambda>l. l_userId l = u \<and> l_storyId l = s) (likes d) = []"
    by (simp add: pairLikes_def)
  from story have ex: "storyExists d s"
    using getStory_None_iff [of d s] by simp
  let ?d1 = "d\<lparr>likes := likes d @ [newLikeRow lid now u s]\<rparr>"
  from ok ex have ins: "insertLike d lid now u s = (Inr (newLikeRow lid now u s), ?d1)"
    by (simp add: insertLike_def likeAccepted_def newLikeRow_def Let_def)
  have cnt: "getLikeCount ?d1 s = getLikeCount d s + 1"
    by (simp add: getLikeCount_def newLikeRow_def)
  show ?thesis
  proof (cases "s_authorId story = u")
    case True
    with e ins story cnt show ?thesis
      by (simp add: toggleLike_def)
  next
    case False
    with ok story ex
    have "createNotification ?d1 nid now (s_authorId story) ''like'' (Defined s)
          = (Inr (likeNotification nid now (s_authorId story) s),
             ?d1\<lparr>notifications := notifications d @ [likeNotification nid now (s_authorId story) s]\<rparr>)"
      by (simp add: createNotification_def likeAccepted_def likeNotification_def Let_def
            userExists_def storyExists_def)
    with False e ins story cnt show ?thesis
      by (simp add: toggleLike_def getLikeCount_def)
  qed
qed

lemma toggleLike_rejected:
  assumes none: "pairLikes d u s = 0" and no: "\<not> likeAccepted d lid nid u s"
  shows "isl (fst (toggleLike d lid nid now u s))
         \<and> notifications (snd (toggleLike d lid nid now u s)) = notifications d"
proof -
  from none have e: "filter (\<lambda>l. l_userId l = u \<and> l_storyId l = s) (likes d) = []"
    by (simp add: pairLikes_def)
  show ?thesis
  proof (cases "insertLike d lid now u s")
    case (Pair r d1)
    show ?thesis
    proof (cases r)
      case (Inl err)
      with Pair e show ?thesis
        by (auto simp: toggleLike_def insertLike_def Let_def split: if_splits)
    next
      case (Inr l)
      with Pair have d1: "d1 = d\<lparr>likes := likes d @ [l]\<rparr>"
        and acc: "lid \<notin> set (map l_id (likes d))" "userExists d u" "storyExists d s"
        by (auto simp: insertLike_def Let_def split: if_splits)
      from acc(3) obtain story where story: "getStory d s = Some story"
        using getStory_None_iff [of d s] by auto
      with no acc have bad: "s_authorId story \<noteq> u"
        "nid \<in> set (map n_id (notifications d)) \<or> \<not> userExists d (s_authorId story)"
        by (auto simp: likeAccepted_def)
      then have "createNotification d1 nid now (s_authorId story) ''like'' (Defined s)
                 = (Inl (if nid \<in> set (map n_id (notifications d)) then UniqueViolation
                         else ForeignKeyViolation), d1)"
        by (auto simp: createNotification_def d1 userExists_def)
      with Pair Inr e story bad(1) show ?thesis
        by (simp add: toggleLike_def d1)
    qed
  qed
qed

lemma likeAccepted_after_delete:
  assumes "likeAccepted d lid nid u s"
  shows "likeAccepted (d\<lparr>likes := filter P (likes d)\<rparr>) lid nid u s"
  using assms by (auto simp: likeAccepted_def userExists_def split: option.splits)

lemma pairLikes_after_delete:
  "pairLikes (d\<lparr>likes := filter (\<lambda>l. \<not> (l_userId l = u \<and> l_storyId l = s)) (likes d)\<rparr>) u s = 0"
  by (simp add: pairLikes_def filter_empty_conv)

lemma likeAccepted_story:
  assumes "likeAccepted d lid nid u s"
  obtains story where "getStory d s = Some story"
  using assms by (auto simp: likeAccepted_def split: option.splits)

lemmas toggle_defs = toggleLike_def insertLike_def createNotification_def getStory_def
  getLikeCount_def userExists_def storyExists_def pairLikes_def likeAccepted_def Let_def

text \<open>
  C1, as the claim states it, fails in two places. Bob already likes \<open>s1\<close>: his first
  call removes the like and his second call, in succession, inserts it again and
  returns \<open>liked = true\<close>, not \<open>liked = false\<close>. And where no like exists the insert
  need not happen: for a story id that is not in \<open>stories\<close> the database rejects the
  row and the call fails.
\<close>

theorem toggleLike_counterexample:
  "pairLikes feedDb ''bob'' ''s1'' = 1
   \<and> fst (toggleLike feedDb ''l8'' ''n8'' 70 ''bob'' ''s1'') = Inr \<lparr>liked = False, count' = 1\<rparr>
   \<and> fst (toggleLike (snd (toggleLike feedDb ''l8'' ''n8'' 70 ''bob'' ''s1''))
            ''l9'' ''n9'' 71 ''bob'' ''s1'')
       = Inr \<lparr>liked = True, count' = 2\<rparr>
   \<and> pairLikes feedDb ''bob'' ''s0'' = 0
   \<and> fst (toggleLike feedDb ''l8'' ''n8'' 70 ''bob'' ''s0'') = Inl ForeignKeyViolation"
  by (simp add: toggle_defs sample_defs)

text \<open>
  C1, amended. If rows of \<open>likes\<close> for (userId, storyId) exist, \<open>toggleLike\<close> deletes
  them and returns \<open>liked = false\<close> with the story's like count after the deletion.
  If none exists and the database accepts the inserts, it inserts one row and returns
  \<open>liked = true\<close> with the count after the insertion, which is the old count plus 1;
  if the database rejects an insert, the call fails. Two calls in succession from a
  state without the like return \<open>liked = true\<close>, then \<open>liked = false\<close> with the count
  the story had at first; from a state with exactly one row for the pair they
  return \<open>liked = false\<close>, then \<open>liked = true\<close> with the count the story had at first.
\<close>

theorem toggleLike_toggles:
  "(0 < pairLikes d u s \<longrightarrow>
      fst (toggleLike d lid nid now u s)
        = Inr \<lparr>liked = False, count' = getLikeCount (snd (toggleLike d lid nid now u s)) s\<rparr>
      \<and> likes (snd (toggleLike d lid nid now u s))
          = filter (\<lambda>l. \<not> (l_userId l = u \<and> l_storyId l = s)) (likes d)
      \<and> pairLikes (snd (toggleLike d lid nid now u s)) u s = 0
      \<and> getLikeCount (snd (toggleLike d lid nid now u s)) s = getLikeCount d s - pairLikes d u s)
   \<and> (pairLikes d u s = 0 \<and> likeAccepted d lid nid u s \<longrightarrow>
      fst (toggleLike d lid nid now u s)
        = Inr \<lparr>liked = True, count' = getLikeCount (snd (toggleLike d lid nid now u s)) s\<rparr>
      \<and> likes (snd (toggleLike d lid nid now u s)) = likes d @ [newLikeRow lid now u s]
      \<and> pairLikes (snd (toggleLike d lid nid now u s)) u s = 1
      \<and> getLikeCount (snd (toggleLike d lid nid now u s)) s = getLikeCount d s + 1)
   \<and> (pairLikes d u s = 0 \<and> \<not> likeAccepted d lid nid u s \<longrightarrow>
      isl (fst (toggleLike d lid nid now u s)))
   \<and> (pairLikes d u s = 0 \<and> likeAccepted d lid nid u s \<longrightarrow>
      fst (toggleLike (snd (toggleLike d lid nid now u s)) lid' nid' now' u s)
        = Inr \<lparr>liked = False, count' = getLikeCount d s\<rparr>)
   \<and> (pairLikes d u s = 1 \<and> likeAccepted d lid' nid' u s \<longrightarrow>
      fst (toggleLike (snd (toggleLike d lid nid now u s)) lid' nid' now' u s)
        = Inr \<lparr>liked = True, count' = getLikeCount d s\<rparr>)"
proof (intro conjI impI)
  assume some: "0 < pairLikes d u s"
  note eq = toggleLike_unlike [OF some, of lid nid now]
  show "fst (toggleLike d lid nid now u s)
        = Inr \<lparr>liked = False, count' = getLikeCount (snd (toggleLike d lid nid now u s)) s\<rparr>"
    unfolding eq by (simp only: fst_conv snd_conv getLikeCount_after_delete)
  show "likes (snd (toggleLike d lid nid now u s))
        = filter (\<lambda>l. \<not> (l_userId l = u \<and> l_storyId l = s)) (likes d)"
    unfolding eq by simp
  show "pairLikes (snd (toggleLike d lid nid now u s)) u s = 0"
    unfolding eq by (simp only: snd_conv pairLikes_after_delete)
  show "getLikeCount (snd (toggleLike d lid nid now u s)) s = getLikeCount d s - pairLikes d u s"
    unfolding eq by (simp only: snd_conv getLikeCount_after_delete)
next
  assume a: "pairLikes d u s = 0 \<and> likeAccepted d lid nid u s"
  then obtain story where story: "getStory d s = Some story"
    by (auto elim: likeAccepted_story)
  from a story have eq: "toggleLike d lid nid now u s
      = (Inr \<lparr>liked = True, count' = getLikeCount d s + 1\<rparr>,
         d\<lparr>likes := likes d @ [newLikeRow lid now u s],
           notifications := notifications d @
             (if s_authorId story \<noteq> u then [likeNotification nid now (s_authorId story) s]
              else [])\<rparr>)"
    by (simp add: toggleLike_like)
  show "fst (toggleLike d lid nid now u s)
        = Inr \<lparr>liked = True, count' = getLikeCount (snd (toggleLike d lid nid now u s)) s\<rparr>"
    unfolding eq by (simp add: getLikeCount_def newLikeRow_def)
  show "likes (snd (toggleLike d lid nid now u s)) = likes d @ [newLikeRow lid now u s]"
    unfolding eq by simp
  from a show "pairLikes (snd (toggleLike d lid nid now u s)) u s = 1"
    unfolding eq by (simp add: pairLikes_def newLikeRow_def)
  show "getLikeCount (snd (toggleLike d lid nid now u s)) s = getLikeCount d s + 1"
    unfolding eq by (simp add: getLikeCount_def newLikeRow_def)
next
  assume "pairLikes d u s = 0 \<and> \<not> likeAccepted d lid nid u s"
  then show "isl (fst (toggleLike d lid nid now u s))"
    using toggleLike_rejected [of d u s lid nid now] by simp
next
  assume a: "pairLikes d u s = 0 \<and> likeAccepted d lid nid u s"
  then obtain story where story: "getStory d s = Some story"
    by (auto elim: likeAccepted_story)
  let ?d1 = "snd (toggleLike d lid nid now u s)"
  from a story have l1: "likes ?d1 = likes d @ [newLikeRow lid now u s]"
    by (simp add: toggleLike_like)
  with a have p: "pairLikes ?d1 u s = 1" and c: "getLikeCount ?d1 s = getLikeCount d s + 1"
    by (simp_all add: pairLikes_def getLikeCount_def newLikeRow_def)
  from p have "0 < pairLikes ?d1 u s" by simp
  from toggleLike_unlike [OF this, of lid' nid' now'] p c
  show "fst (toggleLike ?d1 lid' nid' now' u s) = Inr \<lparr>liked = False, count' = getLikeCount d s\<rparr>"
    by simp
next
  assume a: "pairLikes d u s = 1 \<and> likeAccepted d lid' nid' u s"
  let ?d1 = "d\<lparr>likes := filter (\<lambda>l. \<not> (l_userId l = u \<and> l_storyId l = s)) (likes d)\<rparr>"
  from a have "0 < pairLikes d u s" by simp
  from toggleLike_unlike [OF this, of lid nid now]
  have d1: "snd (toggleLike d lid nid now u s) = ?d1" by simp
  from a obtain story where story: "getStory ?d1 s = Some story"
    by (auto elim: likeAccepted_story)
  from a have acc: "likeAccepted ?d1 lid' nid' u s"
    by (simp add: likeAccepted_after_delete)
  have cnt: "getLikeCount ?d1 s + 1 = getLikeCount d s"
    using a pairLikes_le [of d u s] by (simp only: getLikeCount_after_delete)
  from toggleLike_like [OF pairLikes_after_delete acc story, of now'] cnt
  show "fst (toggleLike (snd (toggleLike d lid nid now u s)) lid' nid' now' u s)
        = Inr \<lparr>liked = True, count' = getLikeCount d s\<rparr>"
    unfolding d1 by simp
qed

text \<open>On the sample state: Bob likes and unlikes \<open>s4\<close> (no likes before), unlikes and
  likes \<open>s1\<close> again (which he liked), and tries a story that does not exist.\<close>

theorem toggleLike_toggles_witness:
  "pairLikes feedDb ''bob'' ''s4'' = 0 \<and> likeAccepted feedDb ''l8'' ''n8'' ''bob'' ''s4''
   \<and> getLikeCount feedDb ''s4'' = 0
   \<and> fst (toggleLike feedDb ''l8'' ''n8'' 70 ''bob'' ''s4'') = Inr \<lparr>liked = True, count' = 1\<rparr>
   \<and> fst (toggleLike (snd (toggleLike feedDb ''l8'' ''n8'' 70 ''bob'' ''s4''))
            ''l9'' ''n9'' 71 ''bob'' ''s4'')
       = Inr \<lparr>liked = False, count' = 0\<rparr>
   \<and> pairLikes feedDb ''bob'' ''s1'' = 1 \<and> likeAccepted feedDb ''l9'' ''n9'' ''bob'' ''s1''
   \<and> getLikeCount feedDb ''s1'' = 2
   \<and> fst (toggleLike feedDb ''l8'' ''n8'' 70 ''bob'' ''s1'') = Inr \<lparr>liked = False, count' = 1\<rparr>
   \<and> fst (toggleLike (snd (toggleLike feedDb ''l8'' ''n8'' 70 ''bob'' ''s1''))
            ''l9'' ''n9'' 71 ''bob'' ''s1'')
       = Inr \<lparr>liked = True, count' = 2\<rparr>
   \<and> pairLikes feedDb ''bob'' ''s0'' = 0 \<and> \<not> likeAccepted feedDb ''l8'' ''n8'' ''bob'' ''s0''
   \<and> isl (fst (toggleLike feedDb ''l8'' ''n8'' 70 ''bob'' ''s0''))"
proof -
  have h: "pairLikes feedDb ''bob'' ''s4'' = 0" "likeAccepted feedDb ''l8'' ''n8'' ''bob'' ''s4''"
    "getLikeCount feedDb ''s4'' = 0"
    "pairLikes feedDb ''bob'' ''s1'' = 1" "likeAccepted feedDb ''l9'' ''n9'' ''bob'' ''s1''"
    "getLikeCount feedDb ''s1'' = 2"
    "pairLikes feedDb ''bob'' ''s0'' = 0" "\<not> likeAccepted feedDb ''l8'' ''n8'' ''bob'' ''s0''"
    by (simp_all add: toggle_defs sample_defs)
  have g: "getLikeCount (snd (toggleLike feedDb ''l8'' ''n8'' 70 ''bob'' ''s4'')) ''s4'' = 1"
    "getLikeCount (snd (toggleLike feedDb ''l8'' ''n8'' 70 ''bob'' ''s1'')) ''s1'' = 1"
    by (simp_all add: toggle_defs sample_defs)
  from toggleLike_toggles [of feedDb "''bob''" "''s4''" "''l8''" "''n8''" 70 "''l9''" "''n9''" 71]
       toggleLike_toggles [of feedDb "''bob''" "''s1''" "''l8''" "''n8''" 70 "''l9''" "''n9''" 71]
       toggleLike_toggles [of feedDb "''bob''" "''s0''" "''l8''" "''n8''" 70 "''l9''" "''n9''" 71]
       h g
  show ?thesis by simp
qed

subsection \<open>The notification of a like\<close>

text \<open>
  C2. The notifications after \<open>toggleLike\<close> are those before it, followed by exactly
  one new row (type \<open>like\<close>, addressed to the story's author, referencing the story)
  when the call inserted a like, returned, and the story's author is not the liking
  user; nothing is added for a like of one's own story, and nothing when the call
  removes a like. The call returns unless no like existed and the database rejects an
  insert.
\<close>

theorem toggleLike_notifications:
  "notifications (snd (toggleLike d lid nid now u s))
     = notifications d @
       (case getStory d s of
          None \<Rightarrow> []
        | Some story \<Rightarrow>
            if pairLikes d u s = 0 \<and> likeAccepted d lid nid u s \<and> s_authorId story \<noteq> u
            then [\<lparr>n_id = nid, n_userId = s_authorId story, n_type = ''like'',
                   n_storyId = Some s, n_read = Some False, n_createdAt = Some now\<rparr>]
            else [])
   \<and> (isl (fst (toggleLike d lid nid now u s))
        = (pairLikes d u s = 0 \<and> \<not> likeAccepted d lid nid u s))"
proof (cases "0 < pairLikes d u s")
  case True
  from toggleLike_unlike [OF True, of lid nid now] True show ?thesis
    by (simp split: option.splits)
next
  case False
  then have none: "pairLikes d u s = 0" by simp
  show ?thesis
  proof (cases "likeAccepted d lid nid u s")
    case True
    then obtain story where story: "getStory d s = Some story"
      by (auto elim: likeAccepted_story)
    from toggleLike_like [OF none True story, of now] none True story show ?thesis
      by (simp add: likeNotification_def)
  next
    case False
    from toggleLike_rejected [OF none False, of now] none False show ?thesis
      by (simp split: option.splits)
  qed
qed

text \<open>On the sample state: Bob likes Alice's \<open>s4\<close> (one notification to Alice), Alice
  likes her own \<open>s4\<close> (none), Bob unlikes \<open>s1\<close> (none), and Bob's second toggle on
  \<open>s4\<close> adds nothing to the first.\<close>

theorem toggleLike_notifications_witness:
  "notifications (snd (toggleLike feedDb ''l8'' ''n8'' 70 ''bob'' ''s4''))
     = [\<lparr>n_id = ''n8'', n_userId = ''alice'', n_type = ''like'', n_storyId = Some ''s4'',
         n_read = Some False, n_createdAt = Some 70\<rparr>]
   \<and> notifications (snd (toggleLike feedDb ''l8'' ''n8'' 70 ''alice'' ''s4'')) = []
   \<and> fst (toggleLike feedDb ''l8'' ''n8'' 70 ''alice'' ''s4'') = Inr \<lparr>liked = True, count' = 1\<rparr>
   \<and> notifications (snd (toggleLike feedDb ''l8'' ''n8'' 70 ''bob'' ''s1'')) = []
   \<and> notifications (snd (toggleLike (snd (toggleLike feedDb ''l8'' ''n8'' 70 ''bob'' ''s4''))
                             ''l9'' ''n9'' 71 ''bob'' ''s4''))
       = notifications (snd (toggleLike feedDb ''l8'' ''n8'' 70 ''bob'' ''s4''))"
proof -
  have h: "pairLikes feedDb ''bob'' ''s4'' = 0" "likeAccepted feedDb ''l8'' ''n8'' ''bob'' ''s4''"
    "pairLikes feedDb ''alice'' ''s4'' = 0" "likeAccepted feedDb ''l8'' ''n8'' ''alice'' ''s4''"
    "pairLikes feedDb ''bob'' ''s1'' = 1"
    "map_option s_authorId (getStory feedDb ''s4'') = Some ''alice''"
    "map_option s_authorId (getStory feedDb ''s1'') = Some ''alice''"
    "notifications feedDb = []"
    by (simp_all add: toggle_defs sample_defs)
  have k: "pairLikes (snd (toggleLike feedDb ''l8'' ''n8'' 70 ''bob'' ''s4'')) ''bob'' ''s4'' = 1"
    "fst (toggleLike feedDb ''l8'' ''n8'' 70 ''alice'' ''s4'') = Inr \<lparr>liked = True, count' = 1\<rparr>"
    by (simp_all add: toggle_defs sample_defs)
  from toggleLike_notifications [of feedDb "''l8''" "''n8''" 70 "''bob''" "''s4''"]
       toggleLike_notifications [of feedDb "''l8''" "''n8''" 70 "''alice''" "''s4''"]
       toggleLike_notifications [of feedDb "''l8''" "''n8''" 70 "''bob''" "''s1''"]
       toggleLike_notifications [of "snd (toggleLike feedDb ''l8'' ''n8'' 70 ''bob'' ''s4'')"
          "''l9''" "''n9''" 71 "''bob''" "''s4''"]
       h k
  show ?thesis by (auto split: option.splits)
qed

subsection \<open>Creating a bookmark\<close>

lemma createBookmark_existing:
  assumes "pairBookmarks d (ib_userId bm) (ib_storyId bm) = e # rest"
  shows "createBookmark d newId now bm
         = (Inr (firstRow (filter (\<lambda>b. b_id b = b_id e)
                    (updateWhere (\<lambda>b. b_id b = b_id e) (touched bm now) (bookmarks d)))),
            d\<lparr>bookmarks := updateWhere (\<lambda>b. b_id b = b_id e) (touched bm now) (bookmarks d)\<rparr>)"
  using assms by (simp add: createBookmark_def pairBookmarks_def Let_def touched_def [abs_def])

lemma createBookmark_new:
  assumes "pairBookmarks d (ib_userId bm) (ib_storyId bm) = []" and "bookmarkAccepted d newId bm"
  shows "createBookmark d newId now bm
         = (Inr (Some (newBookmarkRow newId now bm)),
            d\<lparr>bookmarks := bookmarks d @ [newBookmarkRow newId now bm]\<rparr>)"
  using assms
  by (auto simp: createBookmark_def pairBookmarks_def bookmarkAccepted_def newBookmarkRow_def
        Let_def split: option.splits)

lemma createBookmark_rejected:
  assumes "pairBookmarks d (ib_userId bm) (ib_storyId bm) = []" and "\<not> bookmarkAccepted d newId bm"
  shows "isl (fst (createBookmark d newId now bm)) \<and> snd (createBookmark d newId now bm) = d"
  using assms
  by (auto simp: createBookmark_def pairBookmarks_def bookmarkAccepted_def Let_def
        split: option.splits)

lemma firstRow_filter_updateWhere:
  assumes "e \<in> set rows"
  shows "\<exists>r. firstRow (filter (\<lambda>b. b_id b = b_id e)
                 (updateWhere (\<lambda>b. b_id b = b_id e) (touched bm now) rows)) = Some (touched bm now r)
             \<and> r \<in> set rows \<and> b_id r = b_id e"
  using assms
proof (induction rows)
  case Nil
  then show ?case by simp
next
  case (Cons x xs)
  show ?case
  proof (cases "b_id x = b_id e")
    case True
    then show ?thesis by (auto simp: updateWhere_def touched_def)
  next
    case False
    with Cons show ?thesis by (auto simp: updateWhere_def touched_def)
  qed
qed

lemma pair_filter_updateWhere:
  "filter (\<lambda>b. b_userId b = u \<and> b_storyId b = s) (updateWhere c (touched bm now) rows)
   = updateWhere c (touched bm now) (filter (\<lambda>b. b_userId b = u \<and> b_storyId b = s) rows)"
  by (induction rows) (auto simp: updateWhere_def touched_def)

lemma pairBookmarks_existing:
  assumes "pairBookmarks d (ib_userId bm) (ib_storyId bm) = e # rest"
  shows "pairBookmarks (snd (createBookmark d newId now bm)) u s
         = updateWhere (\<lambda>b. b_id b = b_id e) (touched bm now) (pairBookmarks d u s)"
  by (simp add: createBookmark_existing [OF assms] pairBookmarks_def pair_filter_updateWhere)

lemma map_pair_updateWhere:
  "map (\<lambda>b. (b_userId b, b_storyId b)) (updateWhere c (touched bm now) rows)
   = map (\<lambda>b. (b_userId b, b_storyId b)) rows"
  by (induction rows) (auto simp: updateWhere_def touched_def)

lemma onePerPair_createBookmark:
  assumes "onePerPair d"
  shows "onePerPair (snd (createBookmark d newId now bm))"
proof (cases "pairBookmarks d (ib_userId bm) (ib_storyId bm)")
  case Nil
  then have fresh: "(ib_userId bm, ib_storyId bm) \<notin> set (map (\<lambda>b. (b_userId b, b_storyId b)) (bookmarks d))"
    by (auto simp: pairBookmarks_def filter_empty_conv)
  show ?thesis
  proof (cases "bookmarkAccepted d newId bm")
    case True
    with Nil assms fresh show ?thesis
      by (simp add: createBookmark_new onePerPair_def newBookmarkRow_def)
  next
    case False
    with Nil assms show ?thesis by (simp add: createBookmark_rejected)
  qed
next
  case (Cons e rest)
  with assms show ?thesis
    by (simp add: createBookmark_existing onePerPair_def map_pair_updateWhere)
qed

lemma onePerPair_length:
  assumes "onePerPair d"
  shows "length (pairBookmarks d u s) \<le> 1"
proof -
  have eq: "pairBookmarks d u s
            = filter (\<lambda>b. (u, s) = (b_userId b, b_storyId b)) (bookmarks d)"
    unfolding pairBookmarks_def by (rule filter_cong) auto
  from assms have "length (filter (\<lambda>b. (u, s) = (b_userId b, b_storyId b)) (bookmarks d)) \<le> 1"
    unfolding onePerPair_def by (rule filter_key_distinct)
  with eq show ?thesis by (simp only:)
qed

lemma createBookmark_single:
  assumes "pairBookmarks d (ib_userId bm) (ib_storyId bm) = [e]"
  shows "pairBookmarks (snd (createBookmark d newId now bm)) (ib_userId bm) (ib_storyId bm)
           = [touched bm now e]
         \<and> (\<exists>r. fst (createBookmark d newId now bm) = Inr (Some r) \<and> b_id r = b_id e)"
proof -
  from assms have "e \<in> set (bookmarks d)"
    by (metis filter_is_subset list.set_intros(1) pairBookmarks_def subsetD)
  from firstRow_filter_updateWhere [OF this, of bm now] obtain r where
    "firstRow (filter (\<lambda>b. b_id b = b_id e)
       (updateWhere (\<lambda>b. b_id b = b_id e) (touched bm now) (bookmarks d))) = Some (touched bm now r)"
    "b_id r = b_id e"
    by blast
  then have "\<exists>r. fst (createBookmark d newId now bm) = Inr (Some r) \<and> b_id r = b_id e"
    by (simp add: createBookmark_existing [OF assms] touched_def)
  moreover have "pairBookmarks (snd (createBookmark d newId now bm)) (ib_userId bm) (ib_storyId bm)
                 = [touched bm now e]"
    by (simp add: pairBookmarks_existing [OF assms] assms updateWhere_def)
  ultimately show ?thesis by simp
qed

lemma createBookmark_first:
  assumes "pairBookmarks d (ib_userId bm) (ib_storyId bm) = []" and "bookmarkAccepted d newId bm"
  shows "pairBookmarks (snd (createBookmark d newId now bm)) (ib_userId bm) (ib_storyId bm)
           = [newBookmarkRow newId now bm]"
  using assms(1)
  by (simp add: createBookmark_new [OF assms] pairBookmarks_def newBookmarkRow_def)

lemmas bookmark_defs = createBookmark_def pairBookmarks_def bookmarkAccepted_def onePerPair_def
  fitsInteger_def sampleBookmark_def updateWhere_def userExists_def storyExists_def
  chapterExists_def Let_def

text \<open>
  C6, as the claim states it, fails in two places. Bob has a bookmark on \<open>s1\<close> with
  note \<open>first\<close>: a call for the same pair whose data has no \<open>note\<close> key refreshes the
  timestamp and leaves the note \<open>first\<close> in the row, since \<open>set\<close> leaves an undefined
  key out of the update. And where no row exists the insert need not happen: for a
  story id that is not in \<open>stories\<close> the database rejects the row, the call fails and
  the table stays empty.
\<close>

theorem createBookmark_counterexample:
  "pairBookmarks bookmarkedDb ''bob'' ''s1''
     = [\<lparr>b_id = ''b1'', b_userId = ''bob'', b_storyId = ''s1'', b_chapterId = None,
         b_position = 0, b_note = Some ''first'', b_createdAt = Some 70\<rparr>]
   \<and> bookmarks (snd (createBookmark bookmarkedDb ''b2'' 80 (sampleBookmark ''bob'' ''s1'' Undefined)))
     = [\<lparr>b_id = ''b1'', b_userId = ''bob'', b_storyId = ''s1'', b_chapterId = None,
         b_position = 0, b_note = Some ''first'', b_createdAt = Some 80\<rparr>]
   \<and> pairBookmarks feedDb ''bob'' ''s0'' = []
   \<and> createBookmark feedDb ''b1'' 70 (sampleBookmark ''bob'' ''s0'' (Defined (Some ''first'')))
     = (Inl ForeignKeyViolation, feedDb)
   \<and> bookmarks feedDb = []"
  by (simp add: bookmarkedDb_def bookmark_defs sample_defs)

text \<open>
  C6, amended. If a row of \<open>bookmarks\<close> for the pair exists (\<open>e\<close> the one the lookup
  finds), \<open>createBookmark\<close> returns a row with the id of \<open>e\<close>, created at the instant of
  the call and with the call's note when the call's data carries one; in the table
  the rows with that id have the new timestamp and the call's note (their old note
  when the data has no \<open>note\<close> key), no other column of them and no other row changes,
  and no row is added. If no row exists and the database accepts the insert (position
  fits the \<open>integer\<close> column, the generated id is new, the user and the story exist, and
  the chapter when one is given), the new row is appended and returned; if the
  database rejects it, the call fails and the state is as before. Distinct rows keep
  distinct pairs. So from a state with at most one row per pair, two calls for the
  same pair, the first one accepted when it has to insert and the second with note
  \<open>note'\<close>, leave exactly one row for the pair, with note \<open>note'\<close>, the second call's
  timestamp and the id that both calls return.
\<close>

theorem createBookmark_upsert:
  "(pairBookmarks d (ib_userId bm) (ib_storyId bm) = e # rest \<longrightarrow>
      (\<exists>r. fst (createBookmark d newId now bm) = Inr (Some r) \<and> b_id r = b_id e
           \<and> b_createdAt r = Some now \<and> (\<forall>n. ib_note bm = Defined n \<longrightarrow> b_note r = n))
      \<and> list_all2
           (\<lambda>b b'. b_id b' = b_id b \<and> b_userId b' = b_userId b \<and> b_storyId b' = b_storyId b
              \<and> b_chapterId b' = b_chapterId b \<and> b_position b' = b_position b
              \<and> (if b_id b = b_id e
                  then b_createdAt b' = Some now \<and> b_note b' = setField (ib_note bm) (b_note b)
                  else b' = b))
           (bookmarks d) (bookmarks (snd (createBookmark d newId now bm))))
   \<and> (pairBookmarks d (ib_userId bm) (ib_storyId bm) = [] \<and> bookmarkAccepted d newId bm \<longrightarrow>
      fst (createBookmark d newId now bm) = Inr (Some (newBookmarkRow newId now bm))
      \<and> bookmarks (snd (createBookmark d newId now bm))
          = bookmarks d @ [newBookmarkRow newId now bm])
   \<and> (pairBookmarks d (ib_userId bm) (ib_storyId bm) = [] \<and> \<not> bookmarkAccepted d newId bm \<longrightarrow>
      isl (fst (createBookmark d newId now bm)) \<and> snd (createBookmark d newId now bm) = d)
   \<and> (onePerPair d \<longrightarrow> onePerPair (snd (createBookmark d newId now bm)))
   \<and> (onePerPair d \<and> ib_userId bm' = ib_userId bm \<and> ib_storyId bm' = ib_storyId bm
       \<and> ib_note bm' = Defined note'
       \<and> (pairBookmarks d (ib_userId bm) (ib_storyId bm) = [] \<longrightarrow> bookmarkAccepted d newId bm)
       \<longrightarrow>
      (\<exists>b r r'. pairBookmarks (snd (createBookmark (snd (createBookmark d newId now bm))
                                      newId' now' bm')) (ib_userId bm) (ib_storyId bm) = [b]
           \<and> b_note b = note' \<and> b_createdAt b = Some now'
           \<and> fst (createBookmark d newId now bm) = Inr (Some r) \<and> b_id r = b_id b
           \<and> fst (createBookmark (snd (createBookmark d newId now bm)) newId' now' bm')
               = Inr (Some r') \<and> b_id r' = b_id b))"
proof (intro conjI impI)
  assume ex: "pairBookmarks d (ib_userId bm) (ib_storyId bm) = e # rest"
  then have "e \<in> set (bookmarks d)"
    by (metis filter_is_subset list.set_intros(1) pairBookmarks_def subsetD)
  from firstRow_filter_updateWhere [OF this, of bm now] obtain r0 where
    "firstRow (filter (\<lambda>b. b_id b = b_id e)
       (updateWhere (\<lambda>b. b_id b = b_id e) (touched bm now) (bookmarks d))) = Some (touched bm now r0)"
    "b_id r0 = b_id e"
    by blast
  then show "\<exists>r. fst (createBookmark d newId now bm) = Inr (Some r) \<and> b_id r = b_id e
           \<and> b_createdAt r = Some now \<and> (\<forall>n. ib_note bm = Defined n \<longrightarrow> b_note r = n)"
    by (simp add: createBookmark_existing [OF ex] touched_def)
  show "list_all2
           (\<lambda>b b'. b_id b' = b_id b \<and> b_userId b' = b_userId b \<and> b_storyId b' = b_storyId b
              \<and> b_chapterId b' = b_chapterId b \<and> b_position b' = b_position b
              \<and> (if b_id b = b_id e
                  then b_createdAt b' = Some now \<and> b_note b' = setField (ib_note bm) (b_note b)
                  else b' = b))
           (bookmarks d) (bookmarks (snd (createBookmark d newId now bm)))"
    by (simp add: createBookmark_existing [OF ex] updateWhere_def touched_def list_all2_map2
          list_all2_same)
next
  assume a: "pairBookmarks d (ib_userId bm) (ib_storyId bm) = [] \<and> bookmarkAccepted d newId bm"
  then show "fst (createBookmark d newId now bm) = Inr (Some (newBookmarkRow newId now bm))"
    and "bookmarks (snd (createBookmark d newId now bm))
          = bookmarks d @ [newBookmarkRow newId now bm]"
    by (simp_all add: createBookmark_new)
next
  assume a: "pairBookmarks d (ib_userId bm) (ib_storyId bm) = [] \<and> \<not> bookmarkAccepted d newId bm"
  then show "isl (fst (createBookmark d newId now bm))"
    and "snd (createBookmark d newId now bm) = d"
    by (simp_all add: createBookmark_rejected)
next
  assume "onePerPair d"
  then show "onePerPair (snd (createBookmark d newId now bm))"
    by (rule onePerPair_createBookmark)
next
  assume a: "onePerPair d \<and> ib_userId bm' = ib_userId bm \<and> ib_storyId bm' = ib_storyId bm
       \<and> ib_note bm' = Defined note'
       \<and> (pairBookmarks d (ib_userId bm) (ib_storyId bm) = [] \<longrightarrow> bookmarkAccepted d newId bm)"
  let ?d1 = "snd (createBookmark d newId now bm)"
  have "\<exists>b1 r. pairBookmarks ?d1 (ib_userId bm) (ib_storyId bm) = [b1]
               \<and> fst (createBookmark d newId now bm) = Inr (Some r) \<and> b_id r = b_id b1"
  proof (cases "pairBookmarks d (ib_userId bm) (ib_storyId bm)")
    case Nil
    with a have ok: "bookmarkAccepted d newId bm" by simp
    from createBookmark_first [OF Nil ok, of now] createBookmark_new [OF Nil ok, of now]
    show ?thesis by simp
  next
    case (Cons e rest)
    with a onePerPair_length [of d "ib_userId bm" "ib_storyId bm"] have "rest = []" by simp
    with Cons createBookmark_single [of d bm e newId now] show ?thesis
      by (auto simp: touched_def)
  qed
  then obtain b1 r where b1: "pairBookmarks ?d1 (ib_userId bm') (ib_storyId bm') = [b1]"
    and r: "fst (createBookmark d newId now bm) = Inr (Some r)" "b_id r = b_id b1"
    using a by auto
  from createBookmark_single [OF b1, of newId' now'] a r
  show "\<exists>b r r'. pairBookmarks (snd (createBookmark ?d1 newId' now' bm'))
                    (ib_userId bm) (ib_storyId bm) = [b]
           \<and> b_note b = note' \<and> b_createdAt b = Some now'
           \<and> fst (createBookmark d newId now bm) = Inr (Some r) \<and> b_id r = b_id b
           \<and> fst (createBookmark ?d1 newId' now' bm') = Inr (Some r') \<and> b_id r' = b_id b"
    by (auto simp: touched_def)
qed

text \<open>On the sample state: Bob bookmarks \<open>s1\<close> with note \<open>first\<close> and again with
  note \<open>second\<close>; a bookmark on a story that does not exist is rejected, and so is
  one whose position is \<open>2^31\<close>.\<close>

theorem createBookmark_upsert_witness:
  "onePerPair feedDb
   \<and> pairBookmarks feedDb ''bob'' ''s1'' = []
   \<and> bookmarkAccepted feedDb ''b1'' (sampleBookmark ''bob'' ''s1'' (Defined (Some ''first'')))
   \<and> bookmarks bookmarkedDb
       = [\<lparr>b_id = ''b1'', b_userId = ''bob'', b_storyId = ''s1'', b_chapterId = None,
           b_position = 0, b_note = Some ''first'', b_createdAt = Some 70\<rparr>]
   \<and> pairBookmarks bookmarkedDb ''bob'' ''s1''
       = [\<lparr>b_id = ''b1'', b_userId = ''bob'', b_storyId = ''s1'', b_chapterId = None,
           b_position = 0, b_note = Some ''first'', b_createdAt = Some 70\<rparr>]
   \<and> createBookmark bookmarkedDb ''b2'' 80 (sampleBookmark ''bob'' ''s1'' (Defined (Some ''second'')))
       = (Inr (Some \<lparr>b_id = ''b1'', b_userId = ''bob'', b_storyId = ''s1'', b_chapterId = None,
                     b_position = 0, b_note = Some ''second'', b_createdAt = Some 80\<rparr>),
          bookmarkedDb\<lparr>bookmarks :=
            [\<lparr>b_id = ''b1'', b_userId = ''bob'', b_storyId = ''s1'', b_chapterId = None,
              b_position = 0, b_note = Some ''second'', b_createdAt = Some 80\<rparr>]\<rparr>)
   \<and> onePerPair (snd (createBookmark bookmarkedDb ''b2'' 80
                        (sampleBookmark ''bob'' ''s1'' (Defined (Some ''second'')))))
   \<and> \<not> bookmarkAccepted feedDb ''b1'' (sampleBookmark ''bob'' ''s0'' (Defined None))
   \<and> createBookmark feedDb ''b1'' 70 (sampleBookmark ''bob'' ''s0'' (Defined None))
       = (Inl ForeignKeyViolation, feedDb)
   \<and> \<not> bookmarkAccepted feedDb ''b1''
         ((sampleBookmark ''bob'' ''s1'' (Defined None))\<lparr>ib_position := 2147483648\<rparr>)
   \<and> createBookmark feedDb ''b1'' 70
         ((sampleBookmark ''bob'' ''s1'' (Defined None))\<lparr>ib_position := 2147483648\<rparr>)
       = (Inl NumericValueOutOfRange, feedDb)"
proof -
  have h: "onePerPair feedDb" "pairBookmarks feedDb ''bob'' ''s1'' = []"
    "bookmarkAccepted feedDb ''b1'' (sampleBookmark ''bob'' ''s1'' (Defined (Some ''first'')))"
    "\<not> bookmarkAccepted feedDb ''b1'' (sampleBookmark ''bob'' ''s0'' (Defined None))"
    "pairBookmarks feedDb ''bob'' ''s0'' = []"
    by (simp_all add: bookmark_defs sample_defs)
  have b: "bookmarks bookmarkedDb
       = [\<lparr>b_id = ''b1'', b_userId = ''bob'', b_storyId = ''s1'', b_chapterId = None,
           b_position = 0, b_note = Some ''first'', b_createdAt = Some 70\<rparr>]"
    by (simp add: bookmarkedDb_def bookmark_defs sample_defs)
  have c: "createBookmark bookmarkedDb ''b2'' 80 (sampleBookmark ''bob'' ''s1'' (Defined (Some ''second'')))
       = (Inr (Some \<lparr>b_id = ''b1'', b_userId = ''bob'', b_storyId = ''s1'', b_chapterId = None,
                     b_position = 0, b_note = Some ''second'', b_createdAt = Some 80\<rparr>),
          bookmarkedDb\<lparr>bookmarks :=
            [\<lparr>b_id = ''b1'', b_userId = ''bob'', b_storyId = ''s1'', b_chapterId = None,
              b_position = 0, b_note = Some ''second'', b_createdAt = Some 80\<rparr>]\<rparr>)"
    unfolding createBookmark_def b by (simp add: updateWhere_def sampleBookmark_def)
  have e: "createBookmark feedDb ''b1'' 70 (sampleBookmark ''bob'' ''s0'' (Defined None))
       = (Inl ForeignKeyViolation, feedDb)"
    "\<not> bookmarkAccepted feedDb ''b1''
         ((sampleBookmark ''bob'' ''s1'' (Defined None))\<lparr>ib_position := 2147483648\<rparr>)"
    "createBookmark feedDb ''b1'' 70
         ((sampleBookmark ''bob'' ''s1'' (Defined None))\<lparr>ib_position := 2147483648\<rparr>)
       = (Inl NumericValueOutOfRange, feedDb)"
    by (simp_all add: bookmark_defs sample_defs)
  from createBookmark_upsert [of feedDb "sampleBookmark ''bob'' ''s1'' (Defined (Some ''first''))"
         undefined undefined "''b1''" 70
         "sampleBookmark ''bob'' ''s1'' (Defined (Some ''second''))" "Some ''second''" "''b2''" 80]
       h
  have "onePerPair bookmarkedDb"
    by (simp add: bookmarkedDb_def sampleBookmark_def)
  with createBookmark_upsert [of bookmarkedDb
         "sampleBookmark ''bob'' ''s1'' (Defined (Some ''second''))"
         "\<lparr>b_id = ''b1'', b_userId = ''bob'', b_storyId = ''s1'', b_chapterId = None,
           b_position = 0, b_note = Some ''first'', b_createdAt = Some 70\<rparr>" "[]" "''b2''" 80]
  have "onePerPair (snd (createBookmark bookmarkedDb ''b2'' 80
                        (sampleBookmark ''bob'' ''s1'' (Defined (Some ''second'')))))"
    by blast
  with h b c e show ?thesis by (simp add: pairBookmarks_def)
qed

subsection \<open>The scenario of the specification\<close>

text \<open>
  The story is absent from the feed before it is published and present afterwards
  with \<open>likeCount = 0\<close>; Bob's like returns \<open>liked = true, count = 1\<close> and Alice gets one
  notification; Bob's second toggle returns \<open>liked = false, count = 0\<close>.
\<close>

lemma publish_and_like_scenario:
  "getPublishedStories createdDb Undefined Undefined = []
   \<and> map (\<lambda>r. (r_id r, r_likeCount r)) (getPublishedStories publishedDb Undefined Undefined)
       = [(''s1'', 0)]
   \<and> fst (toggleLike publishedDb ''l1'' ''n1'' 30 ''bob'' ''s1'') = Inr \<lparr>liked = True, count' = 1\<rparr>
   \<and> map (\<lambda>n. (n_userId n, n_type n, n_storyId n)) (notifications likedDb)
       = [(''alice'', ''like'', Some ''s1'')]
   \<and> fst (toggleLike likedDb ''l2'' ''n2'' 40 ''bob'' ''s1'') = Inr \<lparr>liked = False, count' = 0\<rparr>"
  by (simp add: likedDb_def publishedDb_def createdDb_def startDb_def createStory_def
        publishStory_def updateWhere_def sampleInsertStory_def toggle_defs query_defs
        emptyDb_def sampleUser_def)

end
